theory Spec2Isabelle
  imports Complex_Main "HOL-Library.Multiset"
begin

section \<open>Numeric model\<close>

text \<open>
  The authentication layer of the repository computes with NumPy arrays of floats.
  The development idealises a float as a real number and keeps the three special
  values a NumPy division can produce (\<open>x / 0\<close> is \<open>nan\<close>, \<open>inf\<close> or \<open>-inf\<close>, with a
  warning, never an exception).  The rounding of the embeddings' arithmetic is outside
  the model.  Where a rounded product decides an index or a length, in the channel
  simulators, the rounding to a double is the parameter \<open>fl\<close>.  Console output is modelled
  where it can raise.  An exception is a value of type \<open>error\<close>: the built-in
  exceptions the repository raises or provokes, and \<open>ExternalError\<close> for whatever a library
  or a service outside the repository raises.

  Every embedding the two local backends produce is an array of shape \<open>(1, d)\<close>; the
  model keeps its single row as a \<open>real list\<close>.
\<close>

datatype error =
    ValueError string
  | IndexError
  | ZeroDivisionError
  | AttributeError
  | TypeError
  | ExternalError string

datatype pyfloat = Num real | NaN | PosInf | NegInf

text \<open>Python's \<open>x > y\<close> on floats: every comparison with \<open>nan\<close> is false.\<close>

fun float_gt :: "pyfloat \<Rightarrow> pyfloat \<Rightarrow> bool" where
  "float_gt (Num x) (Num y) = (y < x)"
| "float_gt (Num x) NegInf = True"
| "float_gt PosInf (Num y) = True"
| "float_gt PosInf NegInf = True"
| "float_gt _ _ = False"

text \<open>NumPy's elementwise \<open>/\<close> on floats, for one element.\<close>

definition np_divide :: "real \<Rightarrow> real \<Rightarrow> pyfloat" where
  "np_divide x y =
     (if y \<noteq> 0 then Num (x / y)
      else if x = 0 then NaN
      else if 0 < x then PosInf
      else NegInf)"

text \<open>
  \<open>a * b\<close> on two arrays of shapes \<open>(1, m)\<close> and \<open>(1, n)\<close>: elementwise when \<open>m = n\<close>,
  broadcast when one of them is 1, a \<open>ValueError\<close> otherwise.
\<close>

definition np_multiply :: "real list \<Rightarrow> real list \<Rightarrow> error + real list" where
  "np_multiply a b =
     (if length a = length b then Inr (map2 (*) a b)
      else if length a = 1 then Inr (map (\<lambda>y. hd a * y) b)
      else if length b = 1 then Inr (map (\<lambda>x. x * hd b) a)
      else Inl (ValueError ''operands could not be broadcast together''))"

text \<open>\<open>np.linalg.norm(a, axis=1)\<close> on the one row.\<close>

definition l2_norm :: "real list \<Rightarrow> real" where
  "l2_norm a = sqrt (sum_list (map (\<lambda>x. x * x) a))"

subsection \<open>\<open>utils/helpers.py\<close>\<close>

text \<open>
  \<open>cosine_similarity\<close>: the norms are taken first, then the product \<open>a * b\<close> (which may
  raise), then the quotient.  The result array has shape \<open>(1,)\<close>; the model returns its
  element.
\<close>

definition cosine_similarity :: "real list \<Rightarrow> real list \<Rightarrow> error + pyfloat" where
  "cosine_similarity a b =
     (let a_norm = l2_norm a;
          b_norm = l2_norm b
      in case np_multiply a b of
           Inl e \<Rightarrow> Inl e
         | Inr ab \<Rightarrow> Inr (np_divide (sum_list ab) (a_norm * b_norm)))"

subsection \<open>\<open>authentication_models/deepspeaker.py\<close> and \<open>xvectors.py\<close>\<close>

text \<open>
  The two local backends, \<open>DeepSpeakerVerification\<close> and \<open>XVectorVerification\<close>, have the
  same \<open>enroll\<close> and \<open>verify\<close>; they differ in the pretrained network behind
  \<open>_get_embedding\<close>.  That method is the parameter \<open>get_embedding\<close> below: the decoding of the
  file and the network run inside a \<open>try\<close> block, and any exception gives \<open>None\<close>.
  The remote backend (\<open>azure_sv.py\<close>) is not part of this development.
\<close>

type_synonym embedder = "string \<Rightarrow> real list option"

record local_verifier =
  threshold :: real
  enrollment_embedding :: "real list option"

definition local_verifier_init :: "real \<Rightarrow> local_verifier" where
  "local_verifier_init thr = \<lparr>threshold = thr, enrollment_embedding = None\<rparr>"

text \<open>
  \<open>np.mean(embeddings, axis=0)\<close> on a list of \<open>(1, d)\<close> arrays: the list is first turned
  into one array, which raises \<open>ValueError\<close> when the shapes differ; component \<open>j\<close> of the
  result is the sum of the \<open>j\<close>-th components divided by the number of arrays.
  \<open>enroll\<close> never passes the empty list (NumPy answers \<open>nan\<close> there).
\<close>

definition np_mean :: "real list list \<Rightarrow> error + real list" where
  "np_mean es =
     (case es of
        [] \<Rightarrow> Inr []
      | e0 # _ \<Rightarrow>
          if list_all (\<lambda>e. length e = length e0) es
          then Inr (map (\<lambda>j. sum_list (map (\<lambda>e. e ! j) es) / real (length es))
                     [0..<length e0])
          else Inl (ValueError ''inhomogeneous shape''))"

text \<open>The loop of \<open>enroll\<close>: the embeddings collected so far and the success counter.\<close>

fun enroll_loop :: "embedder \<Rightarrow> string list \<Rightarrow> real list list \<times> nat \<Rightarrow> real list list \<times> nat" where
  "enroll_loop get_embedding [] acc = acc"
| "enroll_loop get_embedding (file # files) (embeddings, successful_enrollments) =
     (case get_embedding file of
        Some embedding \<Rightarrow>
          enroll_loop get_embedding files (embeddings @ [embedding], successful_enrollments + 1)
      | None \<Rightarrow> enroll_loop get_embedding files (embeddings, successful_enrollments))"

text \<open>
  \<open>enroll\<close> on a list of paths (the callers pass lists).  An exception leaves the object
  as it was, so the error branch carries no state.
\<close>

definition enroll :: "embedder \<Rightarrow> local_verifier \<Rightarrow> string list \<Rightarrow> error + bool \<times> local_verifier" where
  "enroll get_embedding v wav_files =
     (if wav_files = [] then Inr (False, v)
      else
        (case enroll_loop get_embedding wav_files ([], 0) of
           (embeddings, successful_enrollments) \<Rightarrow>
             if successful_enrollments > 0 then
               (case np_mean embeddings of
                  Inl e \<Rightarrow> Inl e
                | Inr m \<Rightarrow> Inr (True, v\<lparr>enrollment_embedding := Some m\<rparr>))
             else Inr (False, v)))"

text \<open>
  The \<open>print\<close> of \<open>verify\<close> formats \<open>similarity\<close> with \<open>:.3f\<close>.  The value is the array of
  shape \<open>(1,)\<close> that \<open>cosine_similarity\<close> returned, and an array of one or more dimensions
  hands a format specification that is not empty to \<open>object.__format__\<close>, which raises
  \<open>TypeError\<close>.
\<close>

definition format_similarity :: "pyfloat \<Rightarrow> error + string" where
  "format_similarity similarity = Inl TypeError"

text \<open>
  \<open>verify\<close>: the decision of line 102, the \<open>print\<close> of line 104 and the \<open>return\<close> of line
  105, in this order.
\<close>

definition verify :: "embedder \<Rightarrow> local_verifier \<Rightarrow> string \<Rightarrow> error + bool \<times> pyfloat" where
  "verify get_embedding v wav_file_path =
     (case enrollment_embedding v of
        None \<Rightarrow> Inr (False, Num 0)
      | Some enrolled \<Rightarrow>
          (case get_embedding wav_file_path of
             None \<Rightarrow> Inr (False, Num 0)
           | Some test_embedding \<Rightarrow>
               (case cosine_similarity test_embedding enrolled of
                  Inl e \<Rightarrow> Inl e
                | Inr similarity \<Rightarrow>
                    (let is_verified = float_gt similarity (Num (threshold v))
                     in case format_similarity similarity of
                          Inl e \<Rightarrow> Inl e
                        | Inr text \<Rightarrow> Inr (is_verified, similarity)))))"

subsection \<open>\<open>tasks/csi.py\<close> and \<open>tasks/osi.py\<close>\<close>

text \<open>
  \<open>ClosedSetIdentification\<close> and \<open>OpenSetIdentification\<close> hold the same three attributes
  and share \<open>__init__\<close> and \<open>enroll_speaker\<close>.  \<open>SpeakerVerification\<close>, which stands between
  them and the backend, forwards \<open>enroll\<close> and \<open>verify\<close> unchanged and hands the task's
  threshold to the backend.  The roster \<open>enrolled_speakers\<close> is a Python \<open>dict\<close>: an
  association list in insertion order, where assigning to a key that is present keeps
  its place.
\<close>

record identification =
  verifier :: local_verifier
  enrolled_speakers :: "(string \<times> bool) list"
  task_threshold :: real

definition identification_init :: "real \<Rightarrow> identification" where
  "identification_init thr =
     \<lparr>verifier = local_verifier_init thr, enrolled_speakers = [], task_threshold = thr\<rparr>"

fun dict_set :: "('k \<times> 'v) list \<Rightarrow> 'k \<Rightarrow> 'v \<Rightarrow> ('k \<times> 'v) list" where
  "dict_set [] k v = [(k, v)]"
| "dict_set ((k', v') # rest) k v =
     (if k' = k then (k, v) # rest else (k', v') # dict_set rest k v)"

definition enroll_speaker ::
  "embedder \<Rightarrow> identification \<Rightarrow> string \<Rightarrow> string list \<Rightarrow> error + bool \<times> identification" where
  "enroll_speaker get_embedding s speaker_id wav_files =
     (case enroll get_embedding (verifier s) wav_files of
        Inl e \<Rightarrow> Inl e
      | Inr (success, v') \<Rightarrow>
          Inr (success,
               s\<lparr>verifier := v',
                 enrolled_speakers := dict_set (enrolled_speakers s) speaker_id success\<rparr>))"

text \<open>The loop of \<open>ClosedSetIdentification.identify\<close> over the roster's items.\<close>

fun csi_loop ::
  "(string \<times> bool) list \<Rightarrow> pyfloat \<Rightarrow> string option \<times> pyfloat \<Rightarrow> string option \<times> pyfloat" where
  "csi_loop [] similarity best = best"
| "csi_loop ((speaker_id, enrolled) # rest) similarity (best_speaker, best_score) =
     (if enrolled \<and> float_gt similarity best_score
      then csi_loop rest similarity (Some speaker_id, similarity)
      else csi_loop rest similarity (best_speaker, best_score))"

definition csi_identify ::
  "embedder \<Rightarrow> identification \<Rightarrow> string \<Rightarrow> error + string \<times> pyfloat" where
  "csi_identify get_embedding s wav_file_path =
     (if enrolled_speakers s = []
      then Inl (ValueError ''No speakers enrolled in the system'')
      else
        (case verify get_embedding (verifier s) wav_file_path of
           Inl e \<Rightarrow> Inl e
         | Inr (is_verified, similarity) \<Rightarrow>
             (case csi_loop (enrolled_speakers s) similarity (None, Num (- 1)) of
                (Some best_speaker, best_score) \<Rightarrow> Inr (best_speaker, best_score)
              | (None, _) \<Rightarrow> Inr (fst (hd (enrolled_speakers s)), Num 0))))"

text \<open>The loop of \<open>OpenSetIdentification.identify\<close>: the first item marked enrolled.\<close>

fun osi_loop :: "(string \<times> bool) list \<Rightarrow> string option" where
  "osi_loop [] = None"
| "osi_loop ((speaker_id, enrolled) # rest) =
     (if enrolled then Some speaker_id else osi_loop rest)"

definition osi_identify ::
  "embedder \<Rightarrow> identification \<Rightarrow> string \<Rightarrow> error + string option \<times> pyfloat" where
  "osi_identify get_embedding s wav_file_path =
     (if enrolled_speakers s = [] then Inr (None, Num 0)
      else
        (case verify get_embedding (verifier s) wav_file_path of
           Inl e \<Rightarrow> Inl e
         | Inr (is_verified, similarity) \<Rightarrow>
             if is_verified \<and> float_gt similarity (Num (task_threshold s))
             then Inr (osi_loop (enrolled_speakers s), similarity)
             else Inr (None, similarity)))"

subsection \<open>Array and signal primitives of the channel simulators\<close>

text \<open>
  An audio buffer is a one-dimensional array, a \<open>real list\<close>; a sample rate is a natural
  number.  The primitives below are NumPy's, SciPy's and librosa's, as far as the
  simulators depend on them.  What these libraries compute from outside the repository is
  a parameter: the random deviates (\<open>draw\<close>), the Butterworth design (\<open>design\<close>, the
  second-order sections for an order, critical frequencies and a sample rate) and the
  resampling kernel (\<open>resampler\<close>, which may fail).  So is \<open>fl\<close>, the rounding of a real
  number to a double: a float product \<open>x * y\<close> of the code is \<open>fl (x * y)\<close>, a float quotient
  \<open>fl (x / y)\<close>.
\<close>

type_synonym rounding = "real \<Rightarrow> real"

type_synonym sos_section = "real \<times> real \<times> real \<times> real \<times> real \<times> real"

type_synonym filter_design = "nat \<Rightarrow> real list \<Rightarrow> nat \<Rightarrow> sos_section list"

type_synonym resampling_kernel = "real list \<Rightarrow> nat \<Rightarrow> nat \<Rightarrow> error + real list"

text \<open>Python's \<open>int(x)\<close> on a float truncates towards zero.\<close>

definition py_int :: "real \<Rightarrow> int" where
  "py_int x = (if 0 \<le> x then \<lfloor>x\<rfloor> else \<lceil>x\<rceil>)"

text \<open>\<open>xs[i] = v\<close>: a negative index counts from the end, an index out of range raises.\<close>

definition py_setitem :: "'a list \<Rightarrow> int \<Rightarrow> 'a \<Rightarrow> error + 'a list" where
  "py_setitem xs i v =
     (let n = int (length xs)
      in if 0 \<le> i \<and> i < n then Inr (xs[nat i := v])
         else if - n \<le> i \<and> i < 0 then Inr (xs[nat (n + i) := v])
         else Inl IndexError)"

text \<open>\<open>a + b\<close> on one-dimensional arrays, with NumPy's broadcasting.\<close>

definition np_add :: "real list \<Rightarrow> real list \<Rightarrow> error + real list" where
  "np_add a b =
     (if length a = length b then Inr (map2 (+) a b)
      else if length a = 1 then Inr (map (\<lambda>y. hd a + y) b)
      else if length b = 1 then Inr (map (\<lambda>x. x + hd b) a)
      else Inl (ValueError ''operands could not be broadcast together''))"

text \<open>
  \<open>np.convolve(a, v)\<close> in its default mode \<open>full\<close>: \<open>len(a) + len(v) - 1\<close> samples, and a
  \<open>ValueError\<close> when one of the arrays is empty.
\<close>

definition np_convolve :: "real list \<Rightarrow> real list \<Rightarrow> error + real list" where
  "np_convolve a v =
     (if a = [] then Inl (ValueError ''a cannot be empty'')
      else if v = [] then Inl (ValueError ''v cannot be empty'')
      else Inr (map (\<lambda>k. sum_list (map (\<lambda>i. if i \<le> k \<and> k - i < length v
                                               then a ! i * v ! (k - i) else 0)
                                       [0..<length a]))
                    [0..<length a + length v - 1]))"

text \<open>
  \<open>np.random.normal(0, scale, n)\<close>: \<open>n\<close> deviates, scaled; a negative scale raises.
\<close>

definition np_random_normal :: "(nat \<Rightarrow> real) \<Rightarrow> real \<Rightarrow> nat \<Rightarrow> error + real list" where
  "np_random_normal draw scale n =
     (if scale < 0 then Inl (ValueError ''scale < 0'')
      else Inr (map (\<lambda>i. scale * draw i) [0..<n]))"

text \<open>
  \<open>scipy.signal.butter(N, Wn, btype, fs=fs, output='sos')\<close> for a digital filter: every
  critical frequency must lie strictly between 0 and \<open>fs / 2\<close>, and the two of a band
  must be increasing.
\<close>

definition butter :: "filter_design \<Rightarrow> nat \<Rightarrow> real list \<Rightarrow> nat \<Rightarrow> error + sos_section list" where
  "butter design N Wn fs =
     (if list_ex (\<lambda>w. w \<le> 0) Wn
      then Inl (ValueError ''filter critical frequencies must be greater than 0'')
      else if length Wn = 2 \<and> \<not> Wn ! 0 < Wn ! 1
      then Inl (ValueError ''Wn[0] must be less than Wn[1]'')
      else if list_ex (\<lambda>w. real fs / 2 \<le> w) Wn
      then Inl (ValueError ''Digital filter critical frequencies must be 0 < Wn < fs/2'')
      else Inr (design N Wn fs))"

text \<open>
  \<open>scipy.signal.sosfilt(sos, x)\<close>: the cascade of the sections, each a biquad in
  transposed direct form II that starts at rest.  The array of sections must have six
  columns, so at least one section, and the coefficient \<open>a0\<close> of every section must be 1;
  an empty signal cannot be reshaped for the filter.  Each of these raises \<open>ValueError\<close>.
\<close>

definition sos_a0 :: "sos_section \<Rightarrow> real" where
  "sos_a0 sec = (case sec of (b0, b1, b2, a0, a1, a2) \<Rightarrow> a0)"

fun biquad :: "sos_section \<Rightarrow> real \<times> real \<Rightarrow> real list \<Rightarrow> real list" where
  "biquad sec z [] = []"
| "biquad (b0, b1, b2, a0, a1, a2) (z0, z1) (x # xs) =
     (let y = b0 * x + z0
      in y # biquad (b0, b1, b2, a0, a1, a2) (b1 * x - a1 * y + z1, b2 * x - a2 * y) xs)"

definition sosfilt :: "sos_section list \<Rightarrow> real list \<Rightarrow> error + real list" where
  "sosfilt sos x =
     (if sos = [] then Inl (ValueError ''sos array must be shape (n_sections, 6)'')
      else if list_ex (\<lambda>sec. sos_a0 sec \<noteq> 1) sos
      then Inl (ValueError ''sos[:, 3] should be all ones'')
      else if x = [] then Inl (ValueError ''cannot reshape array of size 0'')
      else Inr (foldl (\<lambda>signal sec. biquad sec (0, 0) signal) x sos))"

text \<open>\<open>librosa.util.fix_length\<close>: cut, or pad with zeros, to \<open>n\<close> samples.\<close>

definition fix_length :: "real list \<Rightarrow> nat \<Rightarrow> real list" where
  "fix_length y n =
     (if n < length y then take n y
      else if length y < n then y @ replicate (n - length y) 0
      else y)"

text \<open>
  \<open>librosa.resample(y, orig_sr=, target_sr=)\<close>: the input itself when the rates agree;
  otherwise the resampler's output, fixed to \<open>n_samples\<close> samples, where
  \<open>ratio = float(target_sr) / orig_sr\<close> and \<open>n_samples = int(np.ceil(len(y) * ratio))\<close> are
  computed in floats.
\<close>

definition librosa_resample ::
  "rounding \<Rightarrow> resampling_kernel \<Rightarrow> real list \<Rightarrow> nat \<Rightarrow> nat \<Rightarrow> error + real list" where
  "librosa_resample fl resampler y orig_sr target_sr =
     (if orig_sr = target_sr then Inr y
      else if orig_sr = 0 then Inl ZeroDivisionError
      else
        (let ratio = fl (real target_sr / real orig_sr);
             n_samples = nat \<lceil>fl (real (length y) * ratio)\<rceil>
         in case resampler y orig_sr target_sr of
              Inl e \<Rightarrow> Inl e
            | Inr y_hat \<Rightarrow> Inr (fix_length y_hat n_samples)))"

subsection \<open>\<open>other_environments/over_the_air_simulation.py\<close>\<close>

record air_simulator =
  reverb_delays :: "(real \<times> real) list"
  noise_level :: real
  lowpass_freq :: real
  filter_order :: nat

text \<open>\<open>AirEnvironmentSimulator()\<close> with its default arguments.\<close>

definition air_simulator_init :: air_simulator where
  "air_simulator_init =
     \<lparr>reverb_delays = [(3 / 100, 6 / 10), (6 / 100, 3 / 10), (1 / 10, 1 / 10)],
      noise_level = 5 / 1000, lowpass_freq = 4000, filter_order = 4\<rparr>"

text \<open>The loop that writes the reflections into the impulse response.\<close>

fun add_reflections ::
  "rounding \<Rightarrow> (real \<times> real) list \<Rightarrow> nat \<Rightarrow> real list \<Rightarrow> error + real list" where
  "add_reflections fl [] sr room_ir = Inr room_ir"
| "add_reflections fl ((delay, amplitude) # rest) sr room_ir =
     (let delay_samples = py_int (fl (delay * real sr))
      in case py_setitem room_ir delay_samples amplitude of
           Inl e \<Rightarrow> Inl e
         | Inr room_ir' \<Rightarrow> add_reflections fl rest sr room_ir')"

definition simulate ::
  "(nat \<Rightarrow> real) \<Rightarrow> filter_design \<Rightarrow> rounding \<Rightarrow> air_simulator \<Rightarrow> real list \<Rightarrow> nat \<Rightarrow>
     error + real list" where
  "simulate draw design fl self audio sr =
     (case py_setitem (replicate sr 0) 0 1 of
        Inl e \<Rightarrow> Inl e
      | Inr room_ir0 \<Rightarrow>
     (case add_reflections fl (reverb_delays self) sr room_ir0 of
        Inl e \<Rightarrow> Inl e
      | Inr room_ir \<Rightarrow>
     (case np_convolve audio room_ir of
        Inl e \<Rightarrow> Inl e
      | Inr full \<Rightarrow>
     (let reverb = take (length audio) full
      in case np_random_normal draw (noise_level self) (length audio) of
        Inl e \<Rightarrow> Inl e
      | Inr noise \<Rightarrow>
     (case np_add reverb noise of
        Inl e \<Rightarrow> Inl e
      | Inr noisy \<Rightarrow>
     (case butter design (filter_order self) [lowpass_freq self] sr of
        Inl e \<Rightarrow> Inl e
      | Inr sos \<Rightarrow> sosfilt sos noisy))))))"

subsection \<open>\<open>other_environments/over_the_line_simulation.py\<close>\<close>

text \<open>
  \<open>simulate_environment\<close> on an array, as \<open>attack.py\<close> calls it, without an output file
  (the returned path is \<open>None\<close>).  The environment is a registered name or a
  configuration.
\<close>

record EnvironmentConfig =
  name :: string
  sample_rate :: nat
  down_sample_rate :: "nat option"
  bandpass_freqs :: "(real \<times> real) option"
  env_filter_order :: nat

datatype environment = ByName string | ByConfig EnvironmentConfig

record EnvironmentSimulator =
  environments :: "(string \<times> EnvironmentConfig) list"

definition phone_config :: EnvironmentConfig where
  "phone_config =
     \<lparr>name = ''phone'', sample_rate = 16000, down_sample_rate = Some 8000,
      bandpass_freqs = Some (300, 3400), env_filter_order = 10\<rparr>"

definition voip_config :: EnvironmentConfig where
  "voip_config =
     \<lparr>name = ''voip'', sample_rate = 16000, down_sample_rate = Some 8000,
      bandpass_freqs = Some (300, 3400), env_filter_order = 10\<rparr>"

definition EnvironmentSimulator_init :: EnvironmentSimulator where
  "EnvironmentSimulator_init =
     \<lparr>environments = [(''phone'', phone_config), (''voip'', voip_config)]\<rparr>"

definition add_environment :: "EnvironmentSimulator \<Rightarrow> EnvironmentConfig \<Rightarrow> EnvironmentSimulator" where
  "add_environment self config =
     self\<lparr>environments := dict_set (environments self) (name config) config\<rparr>"

definition apply_bandpass_filter ::
  "filter_design \<Rightarrow> real list \<Rightarrow> nat \<Rightarrow> real \<times> real \<Rightarrow> nat \<Rightarrow> error + real list" where
  "apply_bandpass_filter design audio sr freqs order' =
     (case butter design order' [fst freqs, snd freqs] sr of
        Inl e \<Rightarrow> Inl e
      | Inr sos \<Rightarrow> sosfilt sos audio)"

definition simulate_environment ::
  "rounding \<Rightarrow> resampling_kernel \<Rightarrow> filter_design \<Rightarrow> EnvironmentSimulator \<Rightarrow> real list \<Rightarrow>
     environment \<Rightarrow> error + real list \<times> string option" where
  "simulate_environment fl resampler design self audio env =
     (case (case env of
              ByName n \<Rightarrow>
                (case map_of (environments self) n of
                   None \<Rightarrow> Inl (ValueError (''Unknown environment: '' @ n))
                 | Some c \<Rightarrow> Inr c)
            | ByConfig c \<Rightarrow> Inr c) of
        Inl e \<Rightarrow> Inl e
      | Inr config \<Rightarrow>
     (let audio_data = audio;
          sr = sample_rate config
      in case (case down_sample_rate config of
                 None \<Rightarrow> Inr audio_data
               | Some d \<Rightarrow>
                   if d = 0 then Inr audio_data
                   else
                     (case librosa_resample fl resampler audio_data sr d of
                        Inl e \<Rightarrow> Inl e
                      | Inr audio_down \<Rightarrow> librosa_resample fl resampler audio_down d sr)) of
        Inl e \<Rightarrow> Inl e
      | Inr audio_up \<Rightarrow>
     (case (case bandpass_freqs config of
              None \<Rightarrow> Inr audio_up
            | Some freqs \<Rightarrow>
                apply_bandpass_filter design audio_up sr freqs (env_filter_order config)) of
        Inl e \<Rightarrow> Inl e
      | Inr processed_audio \<Rightarrow> Inr (processed_audio, None))))"

subsection \<open>\<open>attack.py\<close>\<close>

text \<open>
  The file system, the cloning engines and the audio libraries are outside the
  repository.  They act on a world \<open>'w\<close>, and the framework reaches them through the
  record \<open>externals\<close>: the backend's \<open>_get_embedding\<close> in a given world, \<open>librosa.load\<close> with
  the native sample rate, \<open>soundfile.write\<close>, the three calls into the cloners, and the
  parameters of the simulators.
\<close>

record 'w externals =
  get_embedding_in :: "'w \<Rightarrow> embedder"
  librosa_load :: "'w \<Rightarrow> string \<Rightarrow> error + real list \<times> nat"
  sf_write :: "string \<Rightarrow> real list \<Rightarrow> nat \<Rightarrow> 'w \<Rightarrow> 'w"
  fish_create_model :: "string list \<Rightarrow> string \<Rightarrow> 'w \<Rightarrow> (error + string) \<times> 'w"
  fish_generate_audio :: "string \<Rightarrow> string \<Rightarrow> string \<Rightarrow> 'w \<Rightarrow> (error + string) \<times> 'w"
  openvoice_generate_audio :: "string \<Rightarrow> string \<Rightarrow> string \<Rightarrow> 'w \<Rightarrow> (error + string) \<times> 'w"
  noise_draw :: "nat \<Rightarrow> real"
  butter_design :: filter_design
  resampling :: resampling_kernel
  float_round :: rounding

datatype cloner_kind = FishSpeech | OpenVoice

datatype env_simulator = Air air_simulator | Line EnvironmentSimulator

text \<open>
  \<open>self.auth_system\<close>, as \<open>__init__\<close> builds it from \<open>config.task\<close>: a bare
  \<open>SpeakerVerification\<close> for \<open>"verification"\<close>, the closed-set task for \<open>"csi"\<close>, the open-set
  task otherwise.  Where \<open>run_attack\<close> tests \<open>config.task\<close>, the model looks at the
  constructor.
\<close>

datatype auth_system =
    Verification local_verifier
  | ClosedSet identification
  | OpenSet identification

text \<open>
  The framework object: the three counts of \<open>AttackConfig\<close> (Python integers), the
  mapping \<open>data_loader.get_files()\<close>, the cloner and the simulator chosen by the
  configuration.  The authentication system and the world change during a run and are
  passed as the state.
\<close>

record AttackFramework =
  num_enrollment_files :: int
  num_test_files :: int
  num_attack_files :: int
  get_files :: "string \<rightharpoonup> string list"
  cloner :: cloner_kind
  env_simulator :: "env_simulator option"

datatype result_entry =
    VerifiedEntry string bool pyfloat
  | IdentifiedEntry string "string option" pyfloat

record attack_results =
  enrollment_success :: bool
  real_test_results :: "result_entry list"
  attack_results :: "result_entry list"

text \<open>\<open>xs[lo:hi]\<close> for integers \<open>lo\<close> and \<open>hi\<close>; \<open>xs[:hi]\<close> is \<open>xs[0:hi]\<close>.\<close>

definition py_slice :: "'a list \<Rightarrow> int \<Rightarrow> int \<Rightarrow> 'a list" where
  "py_slice xs lo hi =
     (let n = int (length xs);
          clamp = (\<lambda>i. if i < 0 then max 0 (n + i) else min i n);
          l = clamp lo;
          h = clamp hi
      in take (nat (h - l)) (drop (nat l) xs))"

text \<open>\<open>os.path.basename\<close>: what follows the last slash.\<close>

definition basename :: "string \<Rightarrow> string" where
  "basename path = rev (takeWhile (\<lambda>c. c \<noteq> CHR ''/'') (rev path))"

definition prepare_audio ::
  "'w externals \<Rightarrow> env_simulator option \<Rightarrow> string \<Rightarrow> 'w \<Rightarrow> (error + string) \<times> 'w" where
  "prepare_audio ext env audio_path w =
     (case env of
        None \<Rightarrow> (Inr audio_path, w)
      | Some sim \<Rightarrow>
          (case librosa_load ext w audio_path of
             Inl e \<Rightarrow> (Inl e, w)
           | Inr (audio, sr) \<Rightarrow>
               (case (case sim of
                        Air air \<Rightarrow>
                          simulate (noise_draw ext) (butter_design ext) (float_round ext) air
                            audio sr
                      | Line line \<Rightarrow>
                          map_sum id fst
                            (simulate_environment (float_round ext) (resampling ext)
                               (butter_design ext) line audio (ByName ''phone''))) of
                  Inl e \<Rightarrow> (Inl e, w)
                | Inr processed_audio \<Rightarrow>
                    (let output_path = ''processed_'' @ basename audio_path
                     in (Inr output_path, sf_write ext output_path processed_audio sr w)))))"

text \<open>
  \<open>self.auth_system.enroll_speaker(...)\<close>: \<open>SpeakerVerification\<close> has no such method.
\<close>

definition auth_enroll_speaker ::
  "'w externals \<Rightarrow> auth_system \<Rightarrow> string \<Rightarrow> string list \<Rightarrow> 'w \<Rightarrow> error + bool \<times> auth_system" where
  "auth_enroll_speaker ext auth speaker_id wav_files w =
     (case auth of
        Verification v \<Rightarrow> Inl AttributeError
      | ClosedSet s \<Rightarrow>
          (case enroll_speaker (get_embedding_in ext w) s speaker_id wav_files of
             Inl e \<Rightarrow> Inl e
           | Inr (success, s') \<Rightarrow> Inr (success, ClosedSet s'))
      | OpenSet s \<Rightarrow>
          (case enroll_speaker (get_embedding_in ext w) s speaker_id wav_files of
             Inl e \<Rightarrow> Inl e
           | Inr (success, s') \<Rightarrow> Inr (success, OpenSet s')))"

text \<open>One test: \<open>verify\<close> or \<open>identify\<close> on the processed file, recorded under \<open>file\<close>.\<close>

definition test_file ::
  "'w externals \<Rightarrow> auth_system \<Rightarrow> string \<Rightarrow> string \<Rightarrow> 'w \<Rightarrow> error + result_entry" where
  "test_file ext auth file processed_file w =
     (case auth of
        Verification v \<Rightarrow>
          (case verify (get_embedding_in ext w) v processed_file of
             Inl e \<Rightarrow> Inl e
           | Inr (is_verified, score) \<Rightarrow> Inr (VerifiedEntry file is_verified score))
      | ClosedSet s \<Rightarrow>
          (case csi_identify (get_embedding_in ext w) s processed_file of
             Inl e \<Rightarrow> Inl e
           | Inr (speaker_id, score) \<Rightarrow> Inr (IdentifiedEntry file (Some speaker_id) score))
      | OpenSet s \<Rightarrow>
          (case osi_identify (get_embedding_in ext w) s processed_file of
             Inl e \<Rightarrow> Inl e
           | Inr (speaker_id, score) \<Rightarrow> Inr (IdentifiedEntry file speaker_id score)))"

text \<open>The loop over the real test files.\<close>

fun real_tests ::
  "'w externals \<Rightarrow> AttackFramework \<Rightarrow> auth_system \<Rightarrow> string list \<Rightarrow> result_entry list \<Rightarrow> 'w \<Rightarrow>
     (error + result_entry list) \<times> 'w" where
  "real_tests ext self auth [] results w = (Inr results, w)"
| "real_tests ext self auth (file # rest) results w =
     (case prepare_audio ext (env_simulator self) file w of
        (Inl e, w') \<Rightarrow> (Inl e, w')
      | (Inr processed_file, w') \<Rightarrow>
          (case test_file ext auth file processed_file w' of
             Inl e \<Rightarrow> (Inl e, w')
           | Inr entry \<Rightarrow> real_tests ext self auth rest (results @ [entry]) w'))"

text \<open>The cloner's part of one attack: the path of the generated file.\<close>

definition generate_attack ::
  "'w externals \<Rightarrow> AttackFramework \<Rightarrow> string \<Rightarrow> string \<Rightarrow> string list \<Rightarrow> 'w \<Rightarrow>
     (error + string) \<times> 'w" where
  "generate_attack ext self target_speaker_id attack_text enrollment_files w =
     (case cloner self of
        FishSpeech \<Rightarrow>
          (case fish_create_model ext enrollment_files (''attack_'' @ target_speaker_id) w of
             (Inl e, w') \<Rightarrow> (Inl e, w')
           | (Inr model_id, w') \<Rightarrow>
               fish_generate_audio ext attack_text model_id
                 (''attack_'' @ target_speaker_id @ ''.wav'') w')
      | OpenVoice \<Rightarrow>
          (case enrollment_files of
             [] \<Rightarrow> (Inl IndexError, w)
           | reference # _ \<Rightarrow>
               openvoice_generate_audio ext attack_text reference
                 (''attack_'' @ target_speaker_id @ ''.wav'') w))"

text \<open>The loop \<open>for _ in range(num_attack_files)\<close>, by the number of rounds left.\<close>

fun attacks ::
  "'w externals \<Rightarrow> AttackFramework \<Rightarrow> auth_system \<Rightarrow> string \<Rightarrow> string \<Rightarrow> string list \<Rightarrow> nat \<Rightarrow>
     result_entry list \<Rightarrow> 'w \<Rightarrow> (error + result_entry list) \<times> 'w" where
  "attacks ext self auth target_speaker_id attack_text enrollment_files 0 results w =
     (Inr results, w)"
| "attacks ext self auth target_speaker_id attack_text enrollment_files (Suc rounds) results w =
     (case generate_attack ext self target_speaker_id attack_text enrollment_files w of
        (Inl e, w') \<Rightarrow> (Inl e, w')
      | (Inr attack_file, w') \<Rightarrow>
          (case prepare_audio ext (env_simulator self) attack_file w' of
             (Inl e, w'') \<Rightarrow> (Inl e, w'')
           | (Inr processed_attack, w'') \<Rightarrow>
               (case test_file ext auth attack_file processed_attack w'' of
                  Inl e \<Rightarrow> (Inl e, w'')
                | Inr entry \<Rightarrow>
                    attacks ext self auth target_speaker_id attack_text enrollment_files rounds
                      (results @ [entry]) w'')))"

text \<open>
  \<open>run_attack\<close>.  An exception leaves the object and the world as they are at that
  moment, so the state is returned beside the result or the exception.
\<close>

definition run_attack ::
  "'w externals \<Rightarrow> AttackFramework \<Rightarrow> string \<Rightarrow> string \<Rightarrow> auth_system \<times> 'w \<Rightarrow>
     (error + attack_results) \<times> auth_system \<times> 'w" where
  "run_attack ext self target_speaker_id attack_text state =
     (case state of (auth, w) \<Rightarrow>
      (case get_files self target_speaker_id of
         None \<Rightarrow>
           (Inl (ValueError (''Speaker '' @ target_speaker_id @ '' not found in dataset'')),
            auth, w)
       | Some speaker_files \<Rightarrow>
           if int (length speaker_files) < num_enrollment_files self + num_test_files self
           then (Inl (ValueError (''Not enough files for speaker '' @ target_speaker_id)), auth, w)
           else
             (let enrollment_files = py_slice speaker_files 0 (num_enrollment_files self);
                  test_files = py_slice speaker_files (num_enrollment_files self)
                                 (num_enrollment_files self + num_test_files self)
              in case auth_enroll_speaker ext auth target_speaker_id enrollment_files w of
                   Inl e \<Rightarrow> (Inl e, auth, w)
                 | Inr (success, auth') \<Rightarrow>
                     (case real_tests ext self auth' test_files [] w of
                        (Inl e, w') \<Rightarrow> (Inl e, auth', w')
                      | (Inr real_results, w') \<Rightarrow>
                          (case attacks ext self auth' target_speaker_id attack_text
                                  enrollment_files (nat (num_attack_files self)) [] w' of
                             (Inl e, w'') \<Rightarrow> (Inl e, auth', w'')
                           | (Inr attack_entries, w'') \<Rightarrow>
                               (Inr \<lparr>enrollment_success = success,
                                     real_test_results = real_results,
                                     attack_results = attack_entries\<rparr>,
                                auth', w''))))))"

subsection \<open>The aggregate of the specification\<close>

text \<open>
  The specification's profile for samples with embeddings \<open>e\<^sub>1, \<dots>, e\<^sub>n\<close> of dimension \<open>d\<close>:
  the vector sum \<open>e\<^sub>1 + \<dots> + e\<^sub>n\<close> divided by \<open>n\<close>.  It is stated with vector operations, to
  be compared with what \<open>enroll\<close> stores.
\<close>

definition vec_add :: "real list \<Rightarrow> real list \<Rightarrow> real list" where
  "vec_add x y = map2 (+) x y"

definition spec_mean :: "nat \<Rightarrow> real list list \<Rightarrow> real list" where
  "spec_mean d es = map (\<lambda>x. x / real (length es)) (foldr vec_add es (replicate d 0))"

subsection \<open>Sequences of enrollments\<close>

text \<open>
  A roster is built by a sequence of \<open>enroll_speaker\<close> calls on a fresh object; the
  sequence stops at the first exception.
\<close>

fun enroll_speakers ::
  "embedder \<Rightarrow> identification \<Rightarrow> (string \<times> string list) list \<Rightarrow> error + identification" where
  "enroll_speakers get_embedding s [] = Inr s"
| "enroll_speakers get_embedding s ((speaker_id, wav_files) # calls) =
     (case enroll_speaker get_embedding s speaker_id wav_files of
        Inl e \<Rightarrow> Inl e
      | Inr (_, s') \<Rightarrow> enroll_speakers get_embedding s' calls)"

subsection \<open>Example data\<close>

text \<open>
  A backend whose network knows four recordings, with embeddings of dimension 4, and
  fails on every other file.
\<close>

definition demo_embedding :: embedder where
  "demo_embedding f =
     (if f = ''a.wav'' then Some [3, 4, 0, 0]
      else if f = ''b.wav'' then Some [4, 3, 0, 0]
      else if f = ''e.wav'' then Some [1, 0, 0, 0]
      else if f = ''p.wav'' then Some [3, 9, 3, 1]
      else None)"

text \<open>
  Stand-ins for the libraries behind the simulators: a resampler that hands its input
  back, a design with the one section that passes its input through, a noise source that
  draws zeros, and exact arithmetic for the rounding (used below on products and
  quotients that doubles represent exactly).
\<close>

definition demo_kernel :: resampling_kernel where
  "demo_kernel y orig_sr target_sr = Inr y"

definition demo_design :: filter_design where
  "demo_design N Wn fs = [(1, 0, 0, 1, 0, 0)]"

definition demo_fl :: rounding where
  "demo_fl x = x"

definition demo_draw :: "nat \<Rightarrow> real" where
  "demo_draw i = 0"

text \<open>
  A world with nothing in it: the backend is \<open>demo_embedding\<close>, no file can be loaded,
  and the cloners answer with the path they were asked to write.
\<close>

definition demo_externals :: "unit externals" where
  "demo_externals =
     \<lparr>get_embedding_in = (\<lambda>w. demo_embedding),
      librosa_load = (\<lambda>w path. Inl (ExternalError ''no such file'')),
      sf_write = (\<lambda>path audio sr w. w),
      fish_create_model = (\<lambda>paths title w. (Inr ''model'', w)),
      fish_generate_audio = (\<lambda>text model_id filename w. (Inr (''cloned_audio/'' @ filename), w)),
      openvoice_generate_audio = (\<lambda>text reference path w. (Inr path, w)),
      noise_draw = demo_draw,
      butter_design = demo_design,
      resampling = demo_kernel,
      float_round = demo_fl\<rparr>"

definition demo_framework :: AttackFramework where
  "demo_framework =
     \<lparr>num_enrollment_files = 1, num_test_files = 1, num_attack_files = 1,
      get_files = [''alice'' \<mapsto> [''a.wav'', ''b.wav'', ''x.wav''],
                   ''bob'' \<mapsto> [''a.wav'', ''b.wav''],
                   ''dave'' \<mapsto> [''a.wav'', ''x.wav'', ''y.wav'']],
      cloner = OpenVoice, env_simulator = None\<rparr>"

section \<open>Properties of the similarity metric\<close>

lemma sumsq_nonneg: "0 \<le> sum_list (map (\<lambda>x. x * x) (a :: real list))"
  by (induction a) auto

lemma sumsq_zero_iff: "sum_list (map (\<lambda>x. x * x) a) = 0 \<longleftrightarrow> (\<forall>x\<in>set a. x = (0::real))"
proof (induction a)
  case Nil
  then show ?case by simp
next
  case (Cons x a)
  have "x * x + sum_list (map (\<lambda>x. x * x) a) = 0 \<longleftrightarrow> x * x = 0 \<and> sum_list (map (\<lambda>x. x * x) a) = 0"
    by (rule add_nonneg_eq_0_iff) (simp_all add: sumsq_nonneg)
  with Cons show ?case by simp
qed

lemma l2_norm_zero_iff: "l2_norm a = 0 \<longleftrightarrow> (\<forall>x\<in>set a. x = 0)"
  by (simp add: l2_norm_def sumsq_zero_iff)

lemma l2_norm_square: "l2_norm a * l2_norm a = sum_list (map (\<lambda>x. x * x) a)"
  by (simp add: l2_norm_def sumsq_nonneg)

lemma sqrt_25: "sqrt 25 = 5"
  by (rule real_sqrt_unique) simp_all

lemma sqrt_100: "sqrt 100 = 10"
  by (rule real_sqrt_unique) simp_all

lemma sum_list_map2_zero_left:
  "\<forall>x\<in>set a. x = (0::real) \<Longrightarrow> sum_list (map2 (*) a b) = 0"
proof (induction a arbitrary: b)
  case Nil
  then show ?case by simp
next
  case (Cons x a)
  then show ?case by (cases b) auto
qed

lemma sum_list_map2_zero_right:
  "\<forall>y\<in>set b. y = (0::real) \<Longrightarrow> sum_list (map2 (*) a b) = 0"
proof (induction b arbitrary: a)
  case Nil
  then show ?case by simp
next
  case (Cons y b)
  then show ?case by (cases a) auto
qed

lemma sum_list_map_zero: "\<forall>x\<in>set a. f x = (0::real) \<Longrightarrow> sum_list (map f a) = 0"
  by (induction a) auto

lemma map2_mult_commute: "map2 (*) a b = map2 (*) b (a :: real list)"
proof (induction a arbitrary: b)
  case Nil
  then show ?case by simp
next
  case (Cons x a)
  then show ?case by (cases b) (auto simp: mult.commute)
qed

lemma np_multiply_commute: "np_multiply a b = np_multiply b a"
proof (cases "length a = length b")
  case True
  then show ?thesis by (simp add: np_multiply_def map2_mult_commute)
next
  case False
  then show ?thesis by (auto simp: np_multiply_def mult.commute)
qed

lemma map2_self: "map2 (*) a a = map (\<lambda>x. x * x) (a :: real list)"
  by (induction a) auto

lemma cosine_similarity_commute: "cosine_similarity a b = cosine_similarity b a"
  by (cases "np_multiply b a")
    (simp_all add: cosine_similarity_def np_multiply_commute [of a b] mult.commute)

lemma np_multiply_error_iff:
  "(\<exists>e. np_multiply a b = Inl e) \<longleftrightarrow> length a \<noteq> length b \<and> length a \<noteq> 1 \<and> length b \<noteq> 1"
  by (auto simp: np_multiply_def)

lemma cosine_similarity_error_iff:
  "(\<exists>e. cosine_similarity a b = Inl e) \<longleftrightarrow> length a \<noteq> length b \<and> length a \<noteq> 1 \<and> length b \<noteq> 1"
proof -
  have "(\<exists>e. cosine_similarity a b = Inl e) \<longleftrightarrow> (\<exists>e. np_multiply a b = Inl e)"
    by (cases "np_multiply a b") (simp_all add: cosine_similarity_def)
  then show ?thesis by (simp add: np_multiply_error_iff)
qed

lemma np_multiply_zero_sum:
  assumes "np_multiply a b = Inr ab" and "l2_norm a = 0 \<or> l2_norm b = 0"
  shows "sum_list ab = 0"
proof -
  from assms(2) have z: "(\<forall>x\<in>set a. x = 0) \<or> (\<forall>y\<in>set b. y = 0)"
    by (simp add: l2_norm_zero_iff)
  show ?thesis
  proof (cases "length a = length b")
    case True
    with assms(1) have "ab = map2 (*) a b" by (simp add: np_multiply_def)
    with z show ?thesis
      using sum_list_map2_zero_left [of a b] sum_list_map2_zero_right [of b a] by auto
  next
    case ne: False
    show ?thesis
    proof (cases "length a = 1")
      case True
      then obtain x where a: "a = [x]" by (cases a) auto
      with ne assms(1) have ab: "ab = map (\<lambda>y. x * y) b" by (simp add: np_multiply_def)
      from z a have "x = 0 \<or> (\<forall>y\<in>set b. y = 0)" by auto
      then show ?thesis unfolding ab by (intro sum_list_map_zero) auto
    next
      case False
      with ne assms(1) have lb: "length b = 1" by (auto simp: np_multiply_def split: if_splits)
      then obtain y where b: "b = [y]" by (cases b) auto
      with ne False assms(1) have ab: "ab = map (\<lambda>x. x * y) a" by (simp add: np_multiply_def)
      from z b have "(\<forall>x\<in>set a. x = 0) \<or> y = 0" by auto
      then show ?thesis unfolding ab by (intro sum_list_map_zero) auto
    qed
  qed
qed

lemma cosine_similarity_zero_norm:
  assumes "length a = length b \<or> length a = 1 \<or> length b = 1"
      and "l2_norm a = 0 \<or> l2_norm b = 0"
  shows "cosine_similarity a b = Inr NaN"
proof -
  from assms(1) have "\<not> (\<exists>e. np_multiply a b = Inl e)"
    unfolding np_multiply_error_iff by blast
  then obtain ab where ab: "np_multiply a b = Inr ab"
    by (cases "np_multiply a b") auto
  from np_multiply_zero_sum [OF ab assms(2)] have "sum_list ab = 0" .
  moreover from assms(2) have "l2_norm a * l2_norm b = 0" by auto
  ultimately show ?thesis by (auto simp add: cosine_similarity_def ab np_divide_def)
qed

text \<open>
  Claim C8, as the code has it.  \<open>cosine_similarity\<close> validates nothing.  It raises
  (a \<open>ValueError\<close> of NumPy's broadcasting) exactly when the two dimensionalities differ
  and neither of them is 1; a vector of dimension 1 is broadcast against the other one and
  a number comes back.  Whenever the shapes are compatible and one of the vectors has zero
  norm, the call returns \<open>nan\<close> and raises nothing.
\<close>

theorem cosine_similarity_errors:
  "((\<exists>e. cosine_similarity a b = Inl e) \<longleftrightarrow>
      length a \<noteq> length b \<and> length a \<noteq> 1 \<and> length b \<noteq> 1) \<and>
   ((length a = length b \<or> length a = 1 \<or> length b = 1) \<and> (l2_norm a = 0 \<or> l2_norm b = 0)
      \<longrightarrow> cosine_similarity a b = Inr NaN)"
  using cosine_similarity_error_iff [of a b] cosine_similarity_zero_norm [of a b] by blast

text \<open>
  The claim that a zero norm or a dimension mismatch always ends in an error fails: a zero
  vector gives \<open>nan\<close>, and a vector of dimension 1 against one of dimension 2 gives 1.4.
\<close>

theorem cosine_similarity_invalid_input_counterexample:
  "l2_norm [0, 0] = 0 \<and> cosine_similarity [0, 0] [1, 0] = Inr NaN \<and>
   length [2 :: real] \<noteq> length [3, 4 :: real] \<and> cosine_similarity [2] [3, 4] = Inr (Num (7 / 5))"
  by (simp add: cosine_similarity_def np_multiply_def np_divide_def l2_norm_def sqrt_25)

theorem cosine_similarity_errors_witness:
  "cosine_similarity [0, 0] [1, 0] = Inr NaN \<and>
   (\<exists>e. cosine_similarity [1, 2, 3] [1, 2] = Inl e)"
proof -
  have "l2_norm [0, 0] = 0" by (simp add: l2_norm_def)
  then show ?thesis
    using cosine_similarity_errors [of "[0, 0]" "[1, 0]"] cosine_similarity_errors [of "[1, 2, 3]" "[1, 2]"]
    by simp
qed

text \<open>
  Claim C10.  For two non-zero vectors of the same dimensionality the similarity is
  symmetric, it is the dot product divided by the product of the L2 norms, and the
  similarity of a non-zero vector with itself is 1 (over the reals, where the claim's
  floating-point tolerance is zero).
\<close>

theorem cosine_similarity_symmetric:
  assumes "length a = length b" and "\<exists>x\<in>set a. x \<noteq> 0" and "\<exists>y\<in>set b. y \<noteq> 0"
  shows "cosine_similarity a b = cosine_similarity b a \<and>
         cosine_similarity a b = Inr (Num (sum_list (map2 (*) a b) / (l2_norm a * l2_norm b))) \<and>
         cosine_similarity a a = Inr (Num 1)"
proof -
  from assms(2, 3) have nz: "l2_norm a \<noteq> 0" "l2_norm b \<noteq> 0"
    by (auto simp: l2_norm_zero_iff)
  have "cosine_similarity a b = Inr (Num (sum_list (map2 (*) a b) / (l2_norm a * l2_norm b)))"
    using assms(1) nz by (simp add: cosine_similarity_def np_multiply_def np_divide_def)
  moreover have "cosine_similarity a a = Inr (Num 1)"
  proof -
    have "sum_list (map2 (*) a a) = l2_norm a * l2_norm a"
      by (simp only: map2_self l2_norm_square)
    then show ?thesis
      using nz by (simp add: cosine_similarity_def np_multiply_def np_divide_def)
  qed
  ultimately show ?thesis
    using cosine_similarity_commute [of a b] by simp
qed

theorem cosine_similarity_symmetric_witness:
  "cosine_similarity [3, 4] [4, 3] = Inr (Num (24 / 25)) \<and>
   cosine_similarity [4, 3] [3, 4] = Inr (Num (24 / 25)) \<and>
   cosine_similarity [3, 4] [3, 4] = Inr (Num 1)"
proof -
  have n: "l2_norm [3, 4] = 5" "l2_norm [4, 3] = 5" by (simp_all add: l2_norm_def sqrt_25)
  show ?thesis
    using cosine_similarity_symmetric [of "[3, 4]" "[4, 3]"] by (auto simp add: n)
qed

section \<open>Enrollment stores the mean embedding\<close>

lemma enroll_loop_eq:
  "enroll_loop ge files (acc, n) =
     (acc @ List.map_filter ge files, n + length (List.map_filter ge files))"
  by (induction files arbitrary: acc n) (auto simp: map_filter_simps split: option.splits)

lemma map_filter_empty_iff: "List.map_filter ge files = [] \<longleftrightarrow> (\<forall>f\<in>set files. ge f = None)"
  by (induction files) (auto simp: map_filter_simps split: option.splits)

lemma enroll_eq:
  "enroll ge v files =
     (if List.map_filter ge files = [] then Inr (False, v)
      else case np_mean (List.map_filter ge files) of
             Inl e \<Rightarrow> Inl e
           | Inr m \<Rightarrow> Inr (True, v\<lparr>enrollment_embedding := Some m\<rparr>))"
  by (cases "files = []") (auto simp: enroll_def enroll_loop_eq map_filter_simps)

lemma vec_add_map_upt:
  "length e = d \<Longrightarrow> vec_add e (map f [0..<d]) = map (\<lambda>j. e ! j + f j) [0..<d]"
  by (simp add: vec_add_def list_eq_iff_nth_eq)

lemma vec_sum_nth:
  "\<forall>e\<in>set es. length e = d \<Longrightarrow>
     foldr vec_add es (replicate d 0) = map (\<lambda>j. sum_list (map (\<lambda>e. e ! j) es)) [0..<d]"
proof (induction es)
  case Nil
  then show ?case by (simp add: list_eq_iff_nth_eq)
next
  case (Cons e es)
  then have le: "length e = d"
    and ih: "foldr vec_add es (replicate d 0) = map (\<lambda>j. sum_list (map (\<lambda>e. e ! j) es)) [0..<d]"
    by simp_all
  have "foldr vec_add (e # es) (replicate d 0) = vec_add e (foldr vec_add es (replicate d 0))"
    by simp
  also have "\<dots> = map (\<lambda>j. e ! j + sum_list (map (\<lambda>e. e ! j) es)) [0..<d]"
    unfolding ih using le by (rule vec_add_map_upt)
  finally show ?case by simp
qed

lemma spec_mean_nth:
  "\<forall>e\<in>set es. length e = d \<Longrightarrow>
     spec_mean d es = map (\<lambda>j. sum_list (map (\<lambda>e. e ! j) es) / real (length es)) [0..<d]"
  by (simp add: spec_mean_def vec_sum_nth)

lemma np_mean_spec:
  assumes "es \<noteq> []" and "\<forall>e\<in>set es. length e = d"
  shows "np_mean es = Inr (spec_mean d es)"
proof -
  from assms(1) obtain e0 rest where es: "es = e0 # rest" by (cases es) auto
  with assms(2) have "length e0 = d" by simp
  moreover from assms(2) this have "list_all (\<lambda>e. length e = length e0) es"
    by (simp add: list_all_iff)
  ultimately show ?thesis
    using spec_mean_nth [OF assms(2)] by (simp add: np_mean_def es)
qed

lemma sum_list_map_mset:
  "mset xs = mset ys \<Longrightarrow> sum_list (map f xs) = sum_list (map (f :: 'a \<Rightarrow> real) ys)"
proof -
  assume "mset xs = mset ys"
  then have "mset (map f xs) = mset (map f ys)" by simp
  then have "sum_mset (mset (map f xs)) = sum_mset (mset (map f ys))" by (rule arg_cong)
  then show ?thesis by (simp only: sum_mset_sum_list)
qed

lemma spec_mean_mset:
  assumes "mset es' = mset es" and "\<forall>e\<in>set es. length e = d"
  shows "spec_mean d es' = spec_mean d es"
proof -
  from assms(1) have s: "set es' = set es" by (rule mset_eq_setD)
  from assms(1) have l: "length es' = length es" by (rule mset_eq_length)
  from assms(2) s have a': "\<forall>e\<in>set es'. length e = d" by simp
  have "\<And>j. sum_list (map (\<lambda>e. e ! j) es') = sum_list (map (\<lambda>e. e ! j) es)"
    using assms(1) by (rule sum_list_map_mset)
  then show ?thesis
    by (simp add: spec_mean_nth [OF assms(2)] spec_mean_nth [OF a'] l)
qed

lemma mset_map_filter:
  "mset xs = mset ys \<Longrightarrow> mset (List.map_filter f xs) = mset (List.map_filter f ys)"
  by (simp add: map_filter_def)

lemma set_map_filter: "set (List.map_filter f xs) = {e. \<exists>x\<in>set xs. f x = Some e}"
  by (induction xs) (auto simp: map_filter_simps split: option.splits)

lemma enroll_mean_general:
  assumes "\<forall>f\<in>set wav_files. \<forall>e. ge f = Some e \<longrightarrow> length e = d"
      and "\<exists>f\<in>set wav_files. ge f \<noteq> None"
  shows "enroll ge v wav_files =
           Inr (True, v\<lparr>enrollment_embedding := Some (spec_mean d (List.map_filter ge wav_files))\<rparr>)"
proof -
  from assms(2) have ne: "List.map_filter ge wav_files \<noteq> []"
    by (simp add: map_filter_empty_iff)
  from assms(1) have "\<forall>e\<in>set (List.map_filter ge wav_files). length e = d"
    by (auto simp: set_map_filter)
  from np_mean_spec [OF ne this] ne show ?thesis
    by (simp add: enroll_eq)
qed

lemma vec_add_three:
  assumes "length ea = d" "length eb = d" "length ec = d"
  shows "spec_mean d [ea, eb, ec] = map (\<lambda>x. x / 3) (vec_add (vec_add ea eb) ec)"
  using assms by (simp add: spec_mean_def vec_add_def list_eq_iff_nth_eq)

text \<open>
  Claim C4.  When the embeddings have a common dimension \<open>d\<close> and at least one sample has
  an embedding, \<open>enroll\<close> on a local backend succeeds, drops the samples without an
  embedding and stores the arithmetic mean of the others; a permutation of the samples
  stores the same profile; and for three samples with embeddings \<open>e\<^sub>a\<close>, \<open>e\<^sub>b\<close>, \<open>e\<^sub>c\<close> the
  profile is \<open>(e\<^sub>a + e\<^sub>b + e\<^sub>c) / 3\<close>.
\<close>

theorem enroll_stores_mean:
  assumes "\<forall>f\<in>set wav_files. \<forall>e. get_embedding f = Some e \<longrightarrow> length e = d"
      and "\<exists>f\<in>set wav_files. get_embedding f \<noteq> None"
  shows "enroll get_embedding v wav_files =
           Inr (True, v\<lparr>enrollment_embedding :=
                           Some (spec_mean d (List.map_filter get_embedding wav_files))\<rparr>) \<and>
         (\<forall>files'. mset files' = mset wav_files \<longrightarrow>
            enroll get_embedding v files' = enroll get_embedding v wav_files) \<and>
         (\<forall>a b c ea eb ec. wav_files = [a, b, c] \<and> get_embedding a = Some ea \<and>
            get_embedding b = Some eb \<and> get_embedding c = Some ec \<longrightarrow>
            enroll get_embedding v wav_files =
              Inr (True, v\<lparr>enrollment_embedding :=
                              Some (map (\<lambda>x. x / 3) (vec_add (vec_add ea eb) ec))\<rparr>))"
proof (intro conjI allI impI)
  show g: "enroll get_embedding v wav_files =
           Inr (True, v\<lparr>enrollment_embedding :=
                           Some (spec_mean d (List.map_filter get_embedding wav_files))\<rparr>)"
    using assms by (rule enroll_mean_general)
  {
    fix files' assume m: "mset files' = mset wav_files"
    then have s: "set files' = set wav_files" by (rule mset_eq_setD)
    have "enroll get_embedding v files' =
           Inr (True, v\<lparr>enrollment_embedding :=
                           Some (spec_mean d (List.map_filter get_embedding files'))\<rparr>)"
      using assms unfolding s [symmetric] by (rule enroll_mean_general)
    moreover have "spec_mean d (List.map_filter get_embedding files') =
                   spec_mean d (List.map_filter get_embedding wav_files)"
      using assms(1) by (intro spec_mean_mset mset_map_filter m) (auto simp: set_map_filter)
    ultimately show "enroll get_embedding v files' = enroll get_embedding v wav_files"
      using g by simp
  }
  {
    fix a b c ea eb ec
    assume h: "wav_files = [a, b, c] \<and> get_embedding a = Some ea \<and>
            get_embedding b = Some eb \<and> get_embedding c = Some ec"
    with assms(1) have "length ea = d" "length eb = d" "length ec = d" by auto
    from vec_add_three [OF this] h
    have "spec_mean d (List.map_filter get_embedding wav_files) =
          map (\<lambda>x. x / 3) (vec_add (vec_add ea eb) ec)"
      by (simp add: map_filter_simps)
    with g show "enroll get_embedding v wav_files =
              Inr (True, v\<lparr>enrollment_embedding :=
                              Some (map (\<lambda>x. x / 3) (vec_add (vec_add ea eb) ec))\<rparr>)"
      by simp
  }
qed

section \<open>Enrollment failure and empty rosters\<close>

lemma demo_norms:
  "l2_norm [3, 4, 0, 0] = 5" "l2_norm [4, 3, 0, 0] = 5"
  "l2_norm [1, 0, 0, 0] = 1" "l2_norm [3, 9, 3, 1] = 10"
  by (simp_all add: l2_norm_def sqrt_25 sqrt_100)

lemma replicate_4: "replicate 4 x = [x, x, x, x]"
  by (simp add: numeral_eq_Suc)

lemma demo_lengths:
  "\<forall>f\<in>set files. \<forall>e. demo_embedding f = Some e \<longrightarrow> length e = 4"
  by (auto simp: demo_embedding_def split: if_splits)

theorem enroll_stores_mean_witness:
  "enroll demo_embedding (local_verifier_init (1 / 2)) [''a.wav'', ''b.wav'', ''e.wav''] =
     Inr (True, \<lparr>threshold = 1 / 2, enrollment_embedding = Some [8 / 3, 7 / 3, 0, 0]\<rparr>) \<and>
   enroll demo_embedding (local_verifier_init (1 / 2)) [''e.wav'', ''a.wav'', ''b.wav''] =
     enroll demo_embedding (local_verifier_init (1 / 2)) [''a.wav'', ''b.wav'', ''e.wav''] \<and>
   enroll demo_embedding (local_verifier_init (1 / 2)) [''a.wav'', ''x.wav'', ''b.wav''] =
     Inr (True, \<lparr>threshold = 1 / 2, enrollment_embedding = Some [7 / 2, 7 / 2, 0, 0]\<rparr>)"
proof -
  let ?v = "local_verifier_init (1 / 2)"
  have u1: "\<exists>f\<in>set [''a.wav'', ''b.wav'', ''e.wav'']. demo_embedding f \<noteq> None"
    by (simp add: demo_embedding_def)
  have u2: "\<exists>f\<in>set [''a.wav'', ''x.wav'', ''b.wav'']. demo_embedding f \<noteq> None"
    by (simp add: demo_embedding_def)
  note t1 = enroll_stores_mean [OF demo_lengths u1, of ?v]
  note t2 = enroll_stores_mean [OF demo_lengths u2, of ?v]
  have d: "demo_embedding ''a.wav'' = Some [3, 4, 0, 0]" "demo_embedding ''b.wav'' = Some [4, 3, 0, 0]"
    "demo_embedding ''e.wav'' = Some [1, 0, 0, 0]" "demo_embedding ''x.wav'' = None"
    by (simp_all add: demo_embedding_def)
  from t1 d have "enroll demo_embedding ?v [''a.wav'', ''b.wav'', ''e.wav''] =
     Inr (True, ?v\<lparr>enrollment_embedding :=
       Some (map (\<lambda>x. x / 3) (vec_add (vec_add [3, 4, 0, 0] [4, 3, 0, 0]) [1, 0, 0, 0]))\<rparr>)"
    by blast
  then have a: "enroll demo_embedding ?v [''a.wav'', ''b.wav'', ''e.wav''] =
     Inr (True, \<lparr>threshold = 1 / 2, enrollment_embedding = Some [8 / 3, 7 / 3, 0, 0]\<rparr>)"
    by (simp add: vec_add_def local_verifier_init_def)
  have "mset [''e.wav'', ''a.wav'', ''b.wav''] = mset [''a.wav'', ''b.wav'', ''e.wav'']"
    by (simp add: add_mset_commute)
  with t1 have b: "enroll demo_embedding ?v [''e.wav'', ''a.wav'', ''b.wav''] =
     enroll demo_embedding ?v [''a.wav'', ''b.wav'', ''e.wav'']"
    by blast
  from t2 have "enroll demo_embedding ?v [''a.wav'', ''x.wav'', ''b.wav''] =
     Inr (True, ?v\<lparr>enrollment_embedding :=
       Some (spec_mean 4 (List.map_filter demo_embedding [''a.wav'', ''x.wav'', ''b.wav'']))\<rparr>)"
    by blast
  then have c: "enroll demo_embedding ?v [''a.wav'', ''x.wav'', ''b.wav''] =
     Inr (True, \<lparr>threshold = 1 / 2, enrollment_embedding = Some [7 / 2, 7 / 2, 0, 0]\<rparr>)"
    by (simp add: d map_filter_simps spec_mean_def vec_add_def local_verifier_init_def replicate_4)
  from a b c show ?thesis by simp
qed

lemma map_of_dict_set: "map_of (dict_set xs k v) = (map_of xs)(k \<mapsto> v)"
  by (induction xs) auto

lemma enroll_no_usable:
  "\<forall>f\<in>set wav_files. ge f = None \<Longrightarrow> enroll ge v wav_files = Inr (False, v)"
  by (simp add: enroll_eq map_filter_empty_iff)

text \<open>
  Claim C5, as the code has it.  When no sample yields an embedding, \<open>enroll_speaker\<close>
  raises nothing: it returns \<open>False\<close>, leaves the backend as it was and records the
  speaker in the roster with status \<open>False\<close> (present, not omitted).
\<close>

theorem enroll_speaker_no_usable_sample:
  assumes "\<forall>f\<in>set wav_files. get_embedding f = None"
  shows "enroll_speaker get_embedding s speaker_id wav_files =
           Inr (False, s\<lparr>enrolled_speakers := dict_set (enrolled_speakers s) speaker_id False\<rparr>) \<and>
         map_of (dict_set (enrolled_speakers s) speaker_id False) speaker_id = Some False"
  using enroll_no_usable [OF assms] by (simp add: enroll_speaker_def map_of_dict_set)

text \<open>
  The claim that such an enrollment ends in an error fails: the call returns normally.
\<close>

theorem enroll_speaker_no_error_counterexample:
  "(\<forall>e. enroll_speaker demo_embedding (identification_init (1 / 2)) ''alice'' [''x.wav''] \<noteq> Inl e) \<and>
   enroll_speaker demo_embedding (identification_init (1 / 2)) ''alice'' [''x.wav''] =
     Inr (False, \<lparr>verifier = \<lparr>threshold = 1 / 2, enrollment_embedding = None\<rparr>,
                  enrolled_speakers = [(''alice'', False)], task_threshold = 1 / 2\<rparr>)"
  by (simp add: enroll_speaker_def enroll_def demo_embedding_def identification_init_def
      local_verifier_init_def)

theorem enroll_speaker_no_usable_sample_witness:
  "enroll_speaker demo_embedding (identification_init (1 / 2)) ''alice'' [''x.wav'', ''y.wav''] =
     Inr (False, \<lparr>verifier = \<lparr>threshold = 1 / 2, enrollment_embedding = None\<rparr>,
                  enrolled_speakers = [(''alice'', False)], task_threshold = 1 / 2\<rparr>)"
proof -
  have "\<forall>f\<in>set [''x.wav'', ''y.wav'']. demo_embedding f = None"
    by (simp add: demo_embedding_def)
  from enroll_speaker_no_usable_sample [OF this, of "identification_init (1 / 2)" "''alice''"]
  show ?thesis by (simp add: identification_init_def local_verifier_init_def)
qed

text \<open>
  Claim C1, as the code has it.  On an empty roster \<open>ClosedSetIdentification.identify\<close>
  raises (a \<open>ValueError\<close>), for every probe; \<open>OpenSetIdentification.identify\<close> returns
  \<open>(None, 0.0)\<close>, and \<open>verify\<close> on a backend without an enrollment returns
  \<open>(False, 0.0)\<close>: both return normally.
\<close>

theorem empty_roster_results:
  "(enrolled_speakers s = [] \<longrightarrow>
      csi_identify get_embedding s p = Inl (ValueError ''No speakers enrolled in the system'') \<and>
      osi_identify get_embedding s p = Inr (None, Num 0)) \<and>
   (enrollment_embedding v = None \<longrightarrow> verify get_embedding v p = Inr (False, Num 0))"
  by (simp add: csi_identify_def osi_identify_def verify_def)

text \<open>
  The claim that all three fail on an empty roster is false for the open-set task and for
  \<open>verify\<close>.
\<close>

theorem empty_roster_counterexample:
  "enrolled_speakers (identification_init (1 / 2)) = [] \<and>
   osi_identify demo_embedding (identification_init (1 / 2)) ''a.wav'' = Inr (None, Num 0) \<and>
   verify demo_embedding (local_verifier_init (1 / 2)) ''a.wav'' = Inr (False, Num 0)"
  by (simp add: osi_identify_def verify_def identification_init_def local_verifier_init_def)

theorem empty_roster_results_witness:
  "csi_identify demo_embedding (identification_init (1 / 2)) ''a.wav'' =
     Inl (ValueError ''No speakers enrolled in the system'') \<and>
   osi_identify demo_embedding (identification_init (1 / 2)) ''a.wav'' = Inr (None, Num 0) \<and>
   verify demo_embedding (local_verifier_init (1 / 2)) ''a.wav'' = Inr (False, Num 0)"
  using empty_roster_results [of "identification_init (1 / 2)" demo_embedding "''a.wav''"
      "local_verifier_init (1 / 2)"]
  by (simp add: identification_init_def local_verifier_init_def)

section \<open>The decision of \<open>verify\<close> and of the identification tasks\<close>

text \<open>
  What \<open>verify\<close> returns does not depend on the threshold, and it is \<open>(False, 0.0)\<close>
  whenever the call returns: with a profile and a probe embedding the call raises, from
  \<open>cosine_similarity\<close> or from the \<open>print\<close>.
\<close>

lemma verify_returns:
  "verify get_embedding v p = Inr r \<Longrightarrow> r = (False, Num 0)"
  by (auto simp: verify_def format_similarity_def Let_def split: option.splits sum.splits)

lemma verify_threshold_irrelevant:
  "verify get_embedding (v\<lparr>threshold := t\<rparr>) p = verify get_embedding v p"
  by (simp add: verify_def format_similarity_def Let_def split: option.splits sum.splits)

lemma verify_with_profile:
  assumes "enrollment_embedding v = Some enrolled" and "get_embedding p = Some x"
      and "cosine_similarity x enrolled = Inr similarity"
  shows "verify get_embedding v p = Inl TypeError"
  using assms by (simp add: verify_def format_similarity_def)

lemma demo_values:
  "demo_embedding ''a.wav'' = Some [3, 4, 0, 0]" "demo_embedding ''b.wav'' = Some [4, 3, 0, 0]"
  "demo_embedding ''e.wav'' = Some [1, 0, 0, 0]" "demo_embedding ''p.wav'' = Some [3, 9, 3, 1]"
  "demo_embedding ''x.wav'' = None" "demo_embedding ''y.wav'' = None"
  by (simp_all add: demo_embedding_def)

lemma demo_enroll_a:
  "enroll demo_embedding v [''a.wav''] = Inr (True, v\<lparr>enrollment_embedding := Some [3, 4, 0, 0]\<rparr>)"
  by (simp add: enroll_def demo_values np_mean_def)

lemma demo_enroll_e:
  "enroll demo_embedding v [''e.wav''] = Inr (True, v\<lparr>enrollment_embedding := Some [1, 0, 0, 0]\<rparr>)"
  by (simp add: enroll_def demo_values np_mean_def)

lemma demo_enroll_x: "enroll demo_embedding v [''x.wav''] = Inr (False, v)"
  by (simp add: enroll_def demo_values)

lemma demo_similarity:
  "cosine_similarity [4, 3, 0, 0] [3, 4, 0, 0] = Inr (Num (24 / 25))"
  "cosine_similarity [3, 9, 3, 1] [1, 0, 0, 0] = Inr (Num (3 / 10))"
  by (simp_all add: cosine_similarity_def np_multiply_def np_divide_def demo_norms)

text \<open>
  Claim C9 is right about the decision the code computes and wrong about what the code
  returns.  With the profile \<open>[3, 4, 0, 0]\<close> and a probe of embedding \<open>[4, 3, 0, 0]\<close> the
  similarity is 0.96, above the threshold 0.5 and below 0.97; \<open>verify\<close> raises
  \<open>TypeError\<close> at either threshold, in the \<open>print\<close> that stands between the decision and
  the \<open>return\<close>.
\<close>

theorem verify_format_error:
  "cosine_similarity [4, 3, 0, 0] [3, 4, 0, 0] = Inr (Num (24 / 25)) \<and>
   float_gt (Num (24 / 25)) (Num (1 / 2)) \<and>
   \<not> float_gt (Num (24 / 25)) (Num (97 / 100)) \<and>
   verify demo_embedding \<lparr>threshold = 1 / 2, enrollment_embedding = Some [3, 4, 0, 0]\<rparr> ''b.wav'' =
     Inl TypeError \<and>
   verify demo_embedding \<lparr>threshold = 97 / 100, enrollment_embedding = Some [3, 4, 0, 0]\<rparr> ''b.wav'' =
     Inl TypeError"
  by (simp add: demo_similarity verify_with_profile [where similarity = "Num (24 / 25)"] demo_values)

text \<open>
  Claim C2 gives \<open>(None, 0.3)\<close> for a similarity of 0.3 at threshold 0.5.  With \<open>alice\<close>
  enrolled on a recording of embedding \<open>[1, 0, 0, 0]\<close> and a probe of embedding
  \<open>[3, 9, 3, 1]\<close>, the similarity is 0.3, and \<open>OpenSetIdentification.identify\<close> raises the
  \<open>TypeError\<close> of \<open>verify\<close>.
\<close>

theorem osi_identify_format_error:
  "enroll_speakers demo_embedding (identification_init (1 / 2)) [(''alice'', [''e.wav''])] =
     Inr \<lparr>verifier = \<lparr>threshold = 1 / 2, enrollment_embedding = Some [1, 0, 0, 0]\<rparr>,
          enrolled_speakers = [(''alice'', True)], task_threshold = 1 / 2\<rparr> \<and>
   cosine_similarity [3, 9, 3, 1] [1, 0, 0, 0] = Inr (Num (3 / 10)) \<and>
   osi_identify demo_embedding
       \<lparr>verifier = \<lparr>threshold = 1 / 2, enrollment_embedding = Some [1, 0, 0, 0]\<rparr>,
        enrolled_speakers = [(''alice'', True)], task_threshold = 1 / 2\<rparr> ''p.wav'' =
     Inl TypeError"
  by (simp add: enroll_speaker_def demo_enroll_e identification_init_def local_verifier_init_def
      demo_similarity osi_identify_def
      verify_with_profile [where similarity = "Num (3 / 10)"] demo_values)

text \<open>
  Claim C3 has both \<open>identify\<close> methods return the similarity that the single \<open>verify\<close>
  call computes against the stored embedding.  With \<open>alice\<close> enrolled on a recording of
  embedding \<open>[3, 4, 0, 0]\<close>, a second speaker whose enrollment failed, and a probe of
  embedding \<open>[4, 3, 0, 0]\<close>, that similarity is 0.96, and both methods raise the
  \<open>TypeError\<close> of \<open>verify\<close>.
\<close>

theorem identify_format_error:
  "enroll_speakers demo_embedding (identification_init (1 / 2))
       [(''alice'', [''a.wav'']), (''bob'', [''x.wav''])] =
     Inr \<lparr>verifier = \<lparr>threshold = 1 / 2, enrollment_embedding = Some [3, 4, 0, 0]\<rparr>,
          enrolled_speakers = [(''alice'', True), (''bob'', False)], task_threshold = 1 / 2\<rparr> \<and>
   cosine_similarity [4, 3, 0, 0] [3, 4, 0, 0] = Inr (Num (24 / 25)) \<and>
   csi_identify demo_embedding
       \<lparr>verifier = \<lparr>threshold = 1 / 2, enrollment_embedding = Some [3, 4, 0, 0]\<rparr>,
        enrolled_speakers = [(''alice'', True), (''bob'', False)], task_threshold = 1 / 2\<rparr>
       ''b.wav'' = Inl TypeError \<and>
   osi_identify demo_embedding
       \<lparr>verifier = \<lparr>threshold = 1 / 2, enrollment_embedding = Some [3, 4, 0, 0]\<rparr>,
        enrolled_speakers = [(''alice'', True), (''bob'', False)], task_threshold = 1 / 2\<rparr>
       ''b.wav'' = Inl TypeError"
  by (simp add: enroll_speaker_def demo_enroll_a demo_enroll_x identification_init_def
      local_verifier_init_def demo_similarity osi_identify_def csi_identify_def
      verify_with_profile [where similarity = "Num (24 / 25)"] demo_values)

section \<open>Output length of the channel simulators\<close>

lemma py_setitem_length: "py_setitem xs i v = Inr ys \<Longrightarrow> length ys = length xs"
  by (auto simp: py_setitem_def Let_def split: if_splits)

lemma add_reflections_length:
  "add_reflections fl ds sr ir = Inr ir' \<Longrightarrow> length ir' = length ir"
proof (induction ds arbitrary: ir)
  case Nil
  then show ?case by simp
next
  case (Cons d ds)
  obtain delay amplitude where d: "d = (delay, amplitude)" by (cases d)
  from Cons.prems d obtain ir1 where
    s: "py_setitem ir (py_int (fl (delay * real sr))) amplitude = Inr ir1"
    and r: "add_reflections fl ds sr ir1 = Inr ir'"
    by (auto simp: Let_def split: sum.splits)
  from Cons.IH [OF r] py_setitem_length [OF s] show ?case by simp
qed

lemma np_convolve_length:
  "np_convolve a v = Inr full \<Longrightarrow> length full = length a + length v - 1 \<and> a \<noteq> [] \<and> v \<noteq> []"
  by (auto simp: np_convolve_def split: if_splits)

lemma np_random_normal_length: "np_random_normal draw scale n = Inr noise \<Longrightarrow> length noise = n"
  by (auto simp: np_random_normal_def split: if_splits)

lemma np_add_length:
  "np_add a b = Inr c \<Longrightarrow> length a = length b \<Longrightarrow> length c = length a"
  by (auto simp: np_add_def)

lemma biquad_length: "length (biquad sec z xs) = length xs"
proof (induction xs arbitrary: z)
  case Nil
  then show ?case by simp
next
  case (Cons x xs)
  obtain b0 b1 b2 a0 a1 a2 where sec: "sec = (b0, b1, b2, a0, a1, a2)" by (cases sec)
  obtain z0 z1 where z: "z = (z0, z1)" by (cases z)
  show ?case unfolding sec z by (simp add: Let_def Cons.IH [unfolded sec])
qed

lemma cascade_length: "length (foldl (\<lambda>signal sec. biquad sec (0, 0) signal) x sos) = length x"
  by (induction sos arbitrary: x) (simp_all add: biquad_length)

lemma sosfilt_length: "sosfilt sos x = Inr y \<Longrightarrow> length y = length x"
  by (auto simp: sosfilt_def cascade_length split: if_splits)

lemma sosfilt_defined:
  "sos \<noteq> [] \<Longrightarrow> \<forall>sec\<in>set sos. sos_a0 sec = 1 \<Longrightarrow> x \<noteq> [] \<Longrightarrow> \<exists>y. sosfilt sos x = Inr y"
  by (auto simp: sosfilt_def list_ex_iff)

lemma simulate_length:
  assumes "simulate draw design fl self audio sr = Inr out"
  shows "length out = length audio"
proof -
  from assms obtain ir full noise noisy sos where
    c: "np_convolve audio ir = Inr full"
    and n: "np_random_normal draw (noise_level self) (length audio) = Inr noise"
    and a: "np_add (take (length audio) full) noise = Inr noisy"
    and out: "sosfilt sos noisy = Inr out"
    by (auto simp: simulate_def Let_def split: sum.splits)
  from np_convolve_length [OF c] have "length audio \<le> length full"
    by (cases ir) auto
  then have "length (take (length audio) full) = length audio" by simp
  moreover from np_random_normal_length [OF n] have "length noise = length audio" .
  ultimately have "length noisy = length audio"
    using np_add_length [OF a] by simp
  with sosfilt_length [OF out] show ?thesis by simp
qed

lemma simulate_empty_audio: "\<exists>e. simulate draw design fl self [] sr = Inl e"
proof (cases "py_setitem (replicate sr 0) 0 (1 :: real)")
  case (Inl e)
  then show ?thesis by (simp add: simulate_def)
next
  case (Inr ir0)
  show ?thesis
  proof (cases "add_reflections fl (reverb_delays self) sr ir0")
    case (Inl e)
    with Inr show ?thesis by (simp add: simulate_def)
  next
    case ir: (Inr ir)
    with Inr show ?thesis by (simp add: simulate_def np_convolve_def)
  qed
qed

lemma add_reflections_defined:
  assumes "\<forall>(delay, amplitude)\<in>set ds.
             - int sr \<le> py_int (fl (delay * real sr)) \<and> py_int (fl (delay * real sr)) < int sr"
      and "length ir = sr"
  shows "\<exists>ir'. add_reflections fl ds sr ir = Inr ir'"
  using assms
proof (induction ds arbitrary: ir)
  case Nil
  then show ?case by simp
next
  case (Cons d ds)
  obtain delay amplitude where d: "d = (delay, amplitude)" by (cases d)
  with Cons.prems(1) have r: "- int sr \<le> py_int (fl (delay * real sr))"
    "py_int (fl (delay * real sr)) < int sr" by auto
  with Cons.prems(2) have "\<exists>ir1. py_setitem ir (py_int (fl (delay * real sr))) amplitude = Inr ir1"
    by (simp add: py_setitem_def Let_def)
  then obtain ir1 where
    s: "py_setitem ir (py_int (fl (delay * real sr))) amplitude = Inr ir1"
    by (elim exE)
  from py_setitem_length [OF s] Cons.prems(2) have "length ir1 = sr" by simp
  moreover from Cons.prems(1) have "\<forall>(delay, amplitude)\<in>set ds.
             - int sr \<le> py_int (fl (delay * real sr)) \<and> py_int (fl (delay * real sr)) < int sr"
    by simp
  ultimately obtain ir' where "add_reflections fl ds sr ir1 = Inr ir'"
    using Cons.IH by blast
  with s d show ?case by simp
qed

lemma simulate_defined:
  assumes "audio \<noteq> []" and "0 < sr"
      and "\<forall>(delay, amplitude)\<in>set (reverb_delays air).
             - int sr \<le> py_int (fl (delay * real sr)) \<and> py_int (fl (delay * real sr)) < int sr"
      and "0 \<le> noise_level air" and "0 < lowpass_freq air" and "lowpass_freq air < real sr / 2"
      and "design (filter_order air) [lowpass_freq air] sr \<noteq> []"
      and "\<forall>sec\<in>set (design (filter_order air) [lowpass_freq air] sr). sos_a0 sec = 1"
  shows "\<exists>out. simulate draw design fl air audio sr = Inr out"
proof -
  from assms(2) have s0: "py_setitem (replicate sr 0) 0 (1 :: real) = Inr ((replicate sr 0)[0 := 1])"
    by (simp add: py_setitem_def)
  have "length ((replicate sr (0 :: real))[0 := 1]) = sr" by simp
  from add_reflections_defined [OF assms(3) this] obtain ir
    where ir: "add_reflections fl (reverb_delays air) sr ((replicate sr 0)[0 := 1]) = Inr ir"
    by (elim exE)
  from add_reflections_length [OF ir] assms(2) have irne: "ir \<noteq> []" by auto
  with assms(1) obtain full where full: "np_convolve audio ir = Inr full"
    by (simp add: np_convolve_def)
  from np_convolve_length [OF full] irne have "length audio \<le> length full"
    by (cases ir) auto
  then have lt: "length (take (length audio) full) = length audio" by simp
  from assms(4) obtain noise where
    noise: "np_random_normal draw (noise_level air) (length audio) = Inr noise"
    by (simp add: np_random_normal_def)
  from np_random_normal_length [OF noise] lt
  obtain noisy where noisy: "np_add (take (length audio) full) noise = Inr noisy"
    by (simp add: np_add_def)
  from np_add_length [OF noisy] np_random_normal_length [OF noise] lt assms(1)
  have nn: "noisy \<noteq> []" by auto
  from assms(5, 6) have
    sos: "butter design (filter_order air) [lowpass_freq air] sr =
            Inr (design (filter_order air) [lowpass_freq air] sr)"
    by (simp add: butter_def)
  from sosfilt_defined [OF assms(7, 8) nn] obtain out where
    "sosfilt (design (filter_order air) [lowpass_freq air] sr) noisy = Inr out"
    by (elim exE)
  with s0 ir full noise noisy sos show ?thesis
    by (simp add: simulate_def)
qed

lemma fix_length_length: "length (fix_length y n) = n"
  by (simp add: fix_length_def)

lemma librosa_resample_length:
  "librosa_resample fl resampler y orig_sr target_sr = Inr y' \<Longrightarrow>
     length y' = (if orig_sr = target_sr then length y
                  else nat \<lceil>fl (real (length y) * fl (real target_sr / real orig_sr))\<rceil>)"
  by (auto simp: librosa_resample_def Let_def fix_length_length split: if_splits sum.splits)

lemma apply_bandpass_filter_length:
  "apply_bandpass_filter design audio sr freqs n = Inr out \<Longrightarrow> length out = length audio"
  by (auto simp: apply_bandpass_filter_def split: sum.splits dest: sosfilt_length)

lemma simulate_environment_by_name:
  "map_of (environments line) n = Some config \<Longrightarrow>
     simulate_environment fl resampler design line audio (ByName n) =
     simulate_environment fl resampler design line audio (ByConfig config)"
  by (simp add: simulate_environment_def)

lemma simulate_environment_parts:
  assumes "simulate_environment fl resampler design self audio (ByConfig config) = Inr (out, path)"
  obtains up where
    "(case down_sample_rate config of
        None \<Rightarrow> Inr audio
      | Some d \<Rightarrow>
          if d = 0 then Inr audio
          else
            (case librosa_resample fl resampler audio (sample_rate config) d of
               Inl e \<Rightarrow> Inl e
             | Inr audio_down \<Rightarrow>
                 librosa_resample fl resampler audio_down d (sample_rate config))) = Inr up"
    and "length out = length up"
proof -
  from assms obtain up where
    up: "(case down_sample_rate config of
        None \<Rightarrow> Inr audio
      | Some d \<Rightarrow>
          if d = 0 then Inr audio
          else
            (case librosa_resample fl resampler audio (sample_rate config) d of
               Inl e \<Rightarrow> Inl e
             | Inr audio_down \<Rightarrow>
                 librosa_resample fl resampler audio_down d (sample_rate config))) = Inr up"
    and bp: "(case bandpass_freqs config of
              None \<Rightarrow> Inr up
            | Some freqs \<Rightarrow>
                apply_bandpass_filter design up (sample_rate config) freqs
                  (env_filter_order config)) = Inr out"
    by (auto simp: simulate_environment_def Let_def split: sum.splits)
  from bp have "length out = length up"
    by (auto split: option.splits dest: apply_bandpass_filter_length)
  with up that show ?thesis by blast
qed

lemma simulate_environment_no_resampling:
  assumes "simulate_environment fl resampler design self audio (ByConfig config) = Inr (out, path)"
      and "down_sample_rate config = None \<or> down_sample_rate config = Some 0 \<or>
           down_sample_rate config = Some (sample_rate config)"
  shows "length out = length audio"
proof -
  from assms(1) obtain up where
    up: "(case down_sample_rate config of
        None \<Rightarrow> Inr audio
      | Some d \<Rightarrow>
          if d = 0 then Inr audio
          else
            (case librosa_resample fl resampler audio (sample_rate config) d of
               Inl e \<Rightarrow> Inl e
             | Inr audio_down \<Rightarrow>
                 librosa_resample fl resampler audio_down d (sample_rate config))) = Inr up"
    and lo: "length out = length up"
    by (rule simulate_environment_parts)
  from up assms(2) have "up = audio"
    by (auto simp: librosa_resample_def split: option.splits if_splits)
  with lo show ?thesis by simp
qed

lemma phone_down_length:
  assumes "\<forall>k. k \<le> 2 * n + 2 \<longrightarrow> fl (real k / 2) = real k / 2"
  shows "nat \<lceil>fl (real n * fl (real 8000 / real 16000))\<rceil> = (n + 1) div 2"
proof -
  have e1: "real 8000 / real 16000 = real 1 / 2" by simp
  have "fl (real 1 / 2) = real 1 / 2" by (rule mp [OF spec [OF assms]]) simp
  then have h: "fl (real 8000 / real 16000) = real 1 / 2" unfolding e1 .
  have e2: "real n * (real 1 / 2) = real n / 2" by simp
  have "fl (real n / 2) = real n / 2" by (rule mp [OF spec [OF assms]]) simp
  then have p: "fl (real n * fl (real 8000 / real 16000)) = real n / 2" unfolding h e2 .
  have "\<lceil>real n / 2\<rceil> = int ((n + 1) div 2)"
  proof (cases "even n")
    case True
    then obtain k where k: "n = 2 * k" by (auto elim: evenE)
    then show ?thesis by simp
  next
    case False
    then obtain k where k: "n = 2 * k + 1" by (auto elim: oddE)
    have "\<lceil>real (2 * k + 1) / 2\<rceil> = int k + 1"
      by (rule ceiling_unique) (simp_all add: field_simps)
    with k show ?thesis by simp
  qed
  then show ?thesis unfolding p by simp
qed

lemma phone_up_length:
  assumes "\<forall>k. k \<le> 4 * m \<longrightarrow> fl (real k / 2) = real k / 2"
  shows "nat \<lceil>fl (real m * fl (real 16000 / real 8000))\<rceil> = 2 * m"
proof (cases "m = 0")
  case True
  have "fl (real 0 / 2) = real 0 / 2" by (rule mp [OF spec [OF assms]]) simp
  then have "fl 0 = 0" by simp
  with True show ?thesis by simp
next
  case False
  have e1: "real 16000 / real 8000 = real 4 / 2" by simp
  have "fl (real 4 / 2) = real 4 / 2" using False by (intro mp [OF spec [OF assms]]) simp
  then have h: "fl (real 16000 / real 8000) = real 4 / 2" unfolding e1 .
  have e2: "real m * (real 4 / 2) = real (4 * m) / 2" by simp
  have "fl (real (4 * m) / 2) = real (4 * m) / 2" by (rule mp [OF spec [OF assms]]) simp
  then have p: "fl (real m * fl (real 16000 / real 8000)) = real (4 * m) / 2" unfolding h e2 .
  have "real (4 * m) / 2 = real (2 * m)" by simp
  then have "\<lceil>real (4 * m) / 2\<rceil> = int (2 * m)" by (simp only: ceiling_of_nat)
  then show ?thesis unfolding p by simp
qed

lemma simulate_environment_phone:
  assumes "simulate_environment fl resampler design EnvironmentSimulator_init audio
             (ByName ''phone'') = Inr (out, path)"
      and "\<forall>k. k \<le> 2 * length audio + 2 \<longrightarrow> fl (real k / 2) = real k / 2"
  shows "length out = (if even (length audio) then length audio else length audio + 1)"
proof -
  have "map_of (environments EnvironmentSimulator_init) ''phone'' = Some phone_config"
    by (simp add: EnvironmentSimulator_init_def)
  with assms(1) have "simulate_environment fl resampler design EnvironmentSimulator_init audio
      (ByConfig phone_config) = Inr (out, path)"
    by (simp add: simulate_environment_by_name)
  then obtain up where
    up: "(case down_sample_rate phone_config of
        None \<Rightarrow> Inr audio
      | Some d \<Rightarrow>
          if d = 0 then Inr audio
          else
            (case librosa_resample fl resampler audio (sample_rate phone_config) d of
               Inl e \<Rightarrow> Inl e
             | Inr audio_down \<Rightarrow>
                 librosa_resample fl resampler audio_down d (sample_rate phone_config))) = Inr up"
    and lo: "length out = length up"
    by (rule simulate_environment_parts)
  from up obtain down where
    d: "librosa_resample fl resampler audio 16000 8000 = Inr down"
    and u: "librosa_resample fl resampler down 8000 16000 = Inr up"
    by (auto simp: phone_config_def split: sum.splits)
  let ?n = "length audio"
  from librosa_resample_length [OF d] phone_down_length [OF assms(2)]
  have ld: "length down = (?n + 1) div 2" by simp
  have "4 * ((?n + 1) div 2) \<le> 2 * ?n + 2" by simp
  with assms(2) have "\<forall>k. k \<le> 4 * length down \<longrightarrow> fl (real k / 2) = real k / 2"
    unfolding ld by auto
  from librosa_resample_length [OF u] phone_up_length [OF this]
  have "length up = 2 * length down" by simp
  with ld lo have "length out = 2 * ((?n + 1) div 2)" by simp
  then show ?thesis by (cases "even ?n") (auto elim: evenE oddE)
qed

lemma upt_small: "[0..<4] = [0, 1, 2, 3]" "[0..<3] = [0, 1, 2]" "[0..<6] = [0, 1, 2, 3, 4, 5]"
  by (simp_all add: upt_rec)

lemma demo_sosfilt: "x \<noteq> [] \<Longrightarrow> sosfilt [(1, 0, 0, 1, 0, 0)] x = Inr x"
proof -
  have "biquad (1, 0, 0, 1, 0, 0) (0, 0) x = x" by (induction x) simp_all
  moreover assume "x \<noteq> []"
  ultimately show ?thesis by (simp add: sosfilt_def sos_a0_def)
qed

text \<open>
  Two small runs of the model: a reflection of amplitude \<open>1/2\<close> two samples late, and a
  one-section filter \<open>y[n] = x[n] + x[n - 1]\<close>.
\<close>

lemma demo_air_small:
  "simulate demo_draw demo_design demo_fl
     \<lparr>reverb_delays = [(1 / 2, 1 / 2)], noise_level = 0, lowpass_freq = 1, filter_order = 4\<rparr>
     [1, 2, 3] 4 = Inr [1, 2, 7 / 2]"
proof -
  have p: "py_int 2 = 2" by (simp add: py_int_def)
  have r: "replicate 4 (0::real) = [0, 0, 0, 0]" by (simp add: numeral_eq_Suc)
  have u: "[1, 0, 0, 0 :: real][nat 2 := 1 / 2] = [1, 0, 1 / 2, 0]" by (simp add: numeral_eq_Suc)
  have c: "np_convolve [1, 2, 3] [1, 0, 1 / 2, 0] = Inr [1, 2, 7 / 2, 1, 3 / 2, 0]"
    by (simp add: np_convolve_def upt_small numeral_eq_Suc)
  show ?thesis
    by (simp add: simulate_def py_setitem_def demo_fl_def p r u c np_random_normal_def np_add_def
        butter_def demo_design_def demo_sosfilt demo_draw_def upt_small)
qed

lemma biquad_demo: "sosfilt [(1, 1, 0, 1, 0, 0)] [1, 2, 3] = Inr [1, 3, 5]"
  by (simp add: sosfilt_def sos_a0_def)

lemma demo_phone_3:
  "simulate_environment demo_fl demo_kernel demo_design EnvironmentSimulator_init [1, 2, 3]
     (ByName ''phone'') = Inr ([1, 2, 0, 0], None)"
proof -
  have c1: "nat \<lceil>demo_fl (real (length [1, 2, 3 :: real]) * demo_fl (real 8000 / real 16000))\<rceil> = 2"
    by (simp add: demo_fl_def ceiling_eq_iff)
  have c2: "nat \<lceil>demo_fl (real (length [1, 2 :: real]) * demo_fl (real 16000 / real 8000))\<rceil> = 4"
    by (simp add: demo_fl_def)
  have d: "librosa_resample demo_fl demo_kernel [1, 2, 3] 16000 8000 = Inr [1, 2]"
    unfolding librosa_resample_def Let_def c1 by (simp add: demo_kernel_def fix_length_def)
  have u: "librosa_resample demo_fl demo_kernel [1, 2] 8000 16000 = Inr [1, 2, 0, 0]"
    unfolding librosa_resample_def Let_def c2
    by (simp add: demo_kernel_def fix_length_def numeral_eq_Suc)
  have b: "apply_bandpass_filter demo_design [1, 2, 0, 0] 16000 (300, 3400) 10 = Inr [1, 2, 0, 0]"
    by (simp add: apply_bandpass_filter_def butter_def demo_design_def demo_sosfilt)
  show ?thesis
    by (simp add: simulate_environment_def EnvironmentSimulator_init_def phone_config_def d u b)
qed

lemma demo_phone_4:
  "simulate_environment demo_fl demo_kernel demo_design EnvironmentSimulator_init [1, 2, 3, 4]
     (ByName ''phone'') = Inr ([1, 2, 0, 0], None)"
proof -
  have c1: "nat \<lceil>demo_fl (real (length [1, 2, 3, 4 :: real]) * demo_fl (real 8000 / real 16000))\<rceil> = 2"
    by (simp add: demo_fl_def)
  have c2: "nat \<lceil>demo_fl (real (length [1, 2 :: real]) * demo_fl (real 16000 / real 8000))\<rceil> = 4"
    by (simp add: demo_fl_def)
  have d: "librosa_resample demo_fl demo_kernel [1, 2, 3, 4] 16000 8000 = Inr [1, 2]"
    unfolding librosa_resample_def Let_def c1 by (simp add: demo_kernel_def fix_length_def)
  have u: "librosa_resample demo_fl demo_kernel [1, 2] 8000 16000 = Inr [1, 2, 0, 0]"
    unfolding librosa_resample_def Let_def c2
    by (simp add: demo_kernel_def fix_length_def numeral_eq_Suc)
  have b: "apply_bandpass_filter demo_design [1, 2, 0, 0] 16000 (300, 3400) 10 = Inr [1, 2, 0, 0]"
    by (simp add: apply_bandpass_filter_def butter_def demo_design_def demo_sosfilt)
  show ?thesis
    by (simp add: simulate_environment_def EnvironmentSimulator_init_def phone_config_def d u b)
qed

text \<open>
  Claim C6, as the code has it.  Whenever the open-air simulator returns, its output has
  the length of its input; it raises on the empty buffer, and it returns for a non-empty
  buffer at a positive sample rate when every reflection index falls inside the impulse
  response, the noise level is not negative, the cutoff lies strictly between 0 and half
  the sample rate and the designed sections are accepted by the filter.  Whenever the line
  simulator returns, its output has the length of its input if no resampling takes place
  (no downsampling rate, or one equal to the sample rate).  For the predefined \<open>phone\<close>
  profile the two float products are exact (the hypothesis on \<open>fl\<close>, which doubles satisfy
  for every buffer below \<open>2^52\<close> samples), and the output has the length of the input
  exactly when that length is even: an odd-length buffer comes back one sample longer.
\<close>

theorem channel_output_length:
  "(\<forall>out. simulate draw design fl air audio sr = Inr out \<longrightarrow> length out = length audio) \<and>
   (\<exists>e. simulate draw design fl air [] sr = Inl e) \<and>
   (audio \<noteq> [] \<and> 0 < sr \<and>
    (\<forall>(delay, amplitude)\<in>set (reverb_delays air).
        - int sr \<le> py_int (fl (delay * real sr)) \<and> py_int (fl (delay * real sr)) < int sr) \<and>
    0 \<le> noise_level air \<and> 0 < lowpass_freq air \<and> lowpass_freq air < real sr / 2 \<and>
    design (filter_order air) [lowpass_freq air] sr \<noteq> [] \<and>
    (\<forall>sec\<in>set (design (filter_order air) [lowpass_freq air] sr). sos_a0 sec = 1) \<longrightarrow>
      (\<exists>out. simulate draw design fl air audio sr = Inr out)) \<and>
   (\<forall>config out path.
      (env = ByConfig config \<or>
       (\<exists>n. env = ByName n \<and> map_of (environments line) n = Some config)) \<and>
      (down_sample_rate config = None \<or> down_sample_rate config = Some 0 \<or>
       down_sample_rate config = Some (sample_rate config)) \<and>
      simulate_environment fl resampler design line audio env = Inr (out, path) \<longrightarrow>
      length out = length audio) \<and>
   (\<forall>out path.
      (\<forall>k. k \<le> 2 * length audio + 2 \<longrightarrow> fl (real k / 2) = real k / 2) \<and>
      simulate_environment fl resampler design EnvironmentSimulator_init audio (ByName ''phone'') =
        Inr (out, path) \<longrightarrow>
      (length out = length audio \<longleftrightarrow> even (length audio)) \<and>
      (odd (length audio) \<longrightarrow> length out = length audio + 1))"
proof (intro conjI allI impI)
  fix out
  assume "simulate draw design fl air audio sr = Inr out"
  then show "length out = length audio" by (rule simulate_length)
next
  show "\<exists>e. simulate draw design fl air [] sr = Inl e" by (rule simulate_empty_audio)
next
  assume "audio \<noteq> [] \<and> 0 < sr \<and>
    (\<forall>(delay, amplitude)\<in>set (reverb_delays air).
        - int sr \<le> py_int (fl (delay * real sr)) \<and> py_int (fl (delay * real sr)) < int sr) \<and>
    0 \<le> noise_level air \<and> 0 < lowpass_freq air \<and> lowpass_freq air < real sr / 2 \<and>
    design (filter_order air) [lowpass_freq air] sr \<noteq> [] \<and>
    (\<forall>sec\<in>set (design (filter_order air) [lowpass_freq air] sr). sos_a0 sec = 1)"
  then show "\<exists>out. simulate draw design fl air audio sr = Inr out"
    using simulate_defined [of audio sr air fl design draw] by blast
next
  fix config out path
  assume a: "(env = ByConfig config \<or>
       (\<exists>n. env = ByName n \<and> map_of (environments line) n = Some config)) \<and>
      (down_sample_rate config = None \<or> down_sample_rate config = Some 0 \<or>
       down_sample_rate config = Some (sample_rate config)) \<and>
      simulate_environment fl resampler design line audio env = Inr (out, path)"
  then have "simulate_environment fl resampler design line audio (ByConfig config) = Inr (out, path)"
    using simulate_environment_by_name [of line _ config fl resampler design audio] by auto
  with a show "length out = length audio"
    using simulate_environment_no_resampling [of fl resampler design line audio config out path]
    by blast
next
  fix out path
  assume a: "(\<forall>k. k \<le> 2 * length audio + 2 \<longrightarrow> fl (real k / 2) = real k / 2) \<and>
      simulate_environment fl resampler design EnvironmentSimulator_init audio (ByName ''phone'') =
        Inr (out, path)"
  then have "length out = (if even (length audio) then length audio else length audio + 1)"
    using simulate_environment_phone [of fl resampler design audio out path] by blast
  then show "(length out = length audio) = even (length audio)" by simp
next
  fix out path
  assume a: "(\<forall>k. k \<le> 2 * length audio + 2 \<longrightarrow> fl (real k / 2) = real k / 2) \<and>
      simulate_environment fl resampler design EnvironmentSimulator_init audio (ByName ''phone'') =
        Inr (out, path)"
    and o: "odd (length audio)"
  from a have "length out = (if even (length audio) then length audio else length audio + 1)"
    using simulate_environment_phone [of fl resampler design audio out path] by blast
  with o show "length out = length audio + 1" by simp
qed

text \<open>
  The line simulator does not preserve every length: three samples through the \<open>phone\<close>
  profile come back as four (1.5 rounds up to 2 samples, which become 4).
\<close>

theorem channel_length_counterexample:
  "simulate_environment demo_fl demo_kernel demo_design EnvironmentSimulator_init [1, 2, 3]
     (ByName ''phone'') = Inr ([1, 2, 0, 0], None) \<and>
   length [1, 2, 0, 0 :: real] \<noteq> length [1, 2, 3 :: real]"
  using demo_phone_3 by simp

theorem channel_output_length_witness:
  "simulate demo_draw demo_design demo_fl
     \<lparr>reverb_delays = [(1 / 2, 1 / 2)], noise_level = 0, lowpass_freq = 1, filter_order = 4\<rparr>
     [1, 2, 3] 4 = Inr [1, 2, 7 / 2] \<and>
   (\<exists>out. simulate demo_draw demo_design demo_fl
     \<lparr>reverb_delays = [(1 / 2, 1 / 2)], noise_level = 0, lowpass_freq = 1, filter_order = 4\<rparr>
     [1, 2, 3, 4, 5] 4 = Inr out \<and> length out = 5) \<and>
   simulate_environment demo_fl demo_kernel demo_design EnvironmentSimulator_init [1, 2, 3, 4]
     (ByName ''phone'') = Inr ([1, 2, 0, 0], None) \<and>
   length [1, 2, 0, 0 :: real] = length [1, 2, 3, 4 :: real] \<and>
   simulate_environment demo_fl demo_kernel demo_design EnvironmentSimulator_init [1, 2, 3]
     (ByName ''phone'') = Inr ([1, 2, 0, 0], None) \<and>
   length [1, 2, 0, 0 :: real] = length [1, 2, 3 :: real] + 1"
proof -
  let ?air = "\<lparr>reverb_delays = [(1 / 2, 1 / 2)], noise_level = 0, lowpass_freq = 1,
               filter_order = 4\<rparr>"
  note t5 = channel_output_length [of demo_draw demo_design demo_fl ?air "[1, 2, 3, 4, 5]" 4
      "ByName ''phone''" EnvironmentSimulator_init demo_kernel]
  have p: "py_int 2 = 2" by (simp add: py_int_def)
  have "[1, 2, 3, 4, 5 :: real] \<noteq> [] \<and> 0 < (4 :: nat) \<and>
    (\<forall>(delay, amplitude)\<in>set (reverb_delays ?air).
        - int 4 \<le> py_int (demo_fl (delay * real 4)) \<and> py_int (demo_fl (delay * real 4)) < int 4) \<and>
    0 \<le> noise_level ?air \<and> 0 < lowpass_freq ?air \<and> lowpass_freq ?air < real 4 / 2 \<and>
    demo_design (filter_order ?air) [lowpass_freq ?air] 4 \<noteq> [] \<and>
    (\<forall>sec\<in>set (demo_design (filter_order ?air) [lowpass_freq ?air] 4). sos_a0 sec = 1)"
    by (simp add: demo_fl_def demo_design_def sos_a0_def p)
  with t5 obtain out where o: "simulate demo_draw demo_design demo_fl ?air [1, 2, 3, 4, 5] 4 = Inr out"
    by blast
  with t5 have "length out = length [1, 2, 3, 4, 5 :: real]" by blast
  with o have a: "\<exists>out. simulate demo_draw demo_design demo_fl ?air [1, 2, 3, 4, 5] 4 = Inr out \<and>
      length out = 5"
    by simp
  note t4 = channel_output_length [of demo_draw demo_design demo_fl ?air "[1, 2, 3, 4]" 4
      "ByName ''phone''" EnvironmentSimulator_init demo_kernel]
  have e4: "\<forall>k. k \<le> 2 * length [1, 2, 3, 4 :: real] + 2 \<longrightarrow> demo_fl (real k / 2) = real k / 2"
    by (simp add: demo_fl_def)
  from t4 e4 demo_phone_4 have "(length [1, 2, 0, 0 :: real] = length [1, 2, 3, 4 :: real]) =
      even (length [1, 2, 3, 4 :: real])"
    by blast
  then have b: "length [1, 2, 0, 0 :: real] = length [1, 2, 3, 4 :: real]" by simp
  note t3 = channel_output_length [of demo_draw demo_design demo_fl ?air "[1, 2, 3]" 4
      "ByName ''phone''" EnvironmentSimulator_init demo_kernel]
  have e3: "\<forall>k. k \<le> 2 * length [1, 2, 3 :: real] + 2 \<longrightarrow> demo_fl (real k / 2) = real k / 2"
    by (simp add: demo_fl_def)
  have "odd (length [1, 2, 3 :: real])" by simp
  with t3 e3 demo_phone_3 have c: "length [1, 2, 0, 0 :: real] = length [1, 2, 3 :: real] + 1"
    by blast
  from a b c demo_air_small demo_phone_3 demo_phone_4 show ?thesis by simp
qed

section \<open>Preconditions of an attack run\<close>

text \<open>
  Claim C7.  \<open>run_attack\<close> raises the "not found" error when the target speaker is absent
  from the file mapping, and the "not enough files" error when the speaker has fewer
  than \<open>num_enrollment_files + num_test_files\<close> files.  In both cases the authentication
  system and the world are as before the call, whatever the backend, the cloner and the
  libraries would do: nothing was enrolled or tested.  (Both are Python \<open>ValueError\<close>s,
  told apart by their messages.)
\<close>

theorem run_attack_precondition_failures:
  "(get_files self target_speaker_id = None \<longrightarrow>
      run_attack ext self target_speaker_id attack_text (auth, w) =
        (Inl (ValueError (''Speaker '' @ target_speaker_id @ '' not found in dataset'')), auth, w)) \<and>
   (\<forall>speaker_files.
      get_files self target_speaker_id = Some speaker_files \<and>
      int (length speaker_files) < num_enrollment_files self + num_test_files self \<longrightarrow>
      run_attack ext self target_speaker_id attack_text (auth, w) =
        (Inl (ValueError (''Not enough files for speaker '' @ target_speaker_id)), auth, w))"
  by (simp add: run_attack_def)

text \<open>
  Past the two checks, a framework configured for the verification task stops at once:
  \<open>SpeakerVerification\<close> has \<open>enroll\<close>, not \<open>enroll_speaker\<close>.
\<close>

lemma run_attack_verification_task:
  assumes "get_files self target_speaker_id = Some speaker_files"
      and "\<not> int (length speaker_files) < num_enrollment_files self + num_test_files self"
  shows "run_attack ext self target_speaker_id attack_text (Verification v, w) =
           (Inl AttributeError, Verification v, w)"
  using assms by (simp add: run_attack_def auth_enroll_speaker_def Let_def)

lemma demo_slices:
  "py_slice [''a.wav'', ''b.wav'', ''x.wav''] 0 1 = [''a.wav'']"
  "py_slice [''a.wav'', ''b.wav'', ''x.wav''] 1 2 = [''b.wav'']"
  "py_slice [''a.wav'', ''x.wav'', ''y.wav''] 0 1 = [''a.wav'']"
  "py_slice [''a.wav'', ''x.wav'', ''y.wav''] 1 2 = [''x.wav'']"
  by (simp_all add: py_slice_def Let_def)

text \<open>
  Two runs of the model for the closed-set task, with one enrollment file, one test file
  and one attack.  The first stops in the test of the real file, whose embedding reaches
  the \<open>print\<close> of \<open>verify\<close>; the enrollment stays.  The second, whose test file and attack
  file have no embedding, runs to its end with the scores 0.
\<close>

lemma demo_run:
  "run_attack demo_externals demo_framework ''alice'' ''hello''
       (ClosedSet (identification_init (1 / 2)), ()) =
     (Inl TypeError,
      ClosedSet \<lparr>verifier = \<lparr>threshold = 1 / 2, enrollment_embedding = Some [3, 4, 0, 0]\<rparr>,
                 enrolled_speakers = [(''alice'', True)], task_threshold = 1 / 2\<rparr>,
      ())"
  by (simp add: run_attack_def demo_framework_def demo_externals_def demo_slices
      auth_enroll_speaker_def enroll_speaker_def demo_enroll_a identification_init_def
      local_verifier_init_def prepare_audio_def test_file_def csi_identify_def
      verify_with_profile [where similarity = "Num (24 / 25)"] demo_values demo_similarity)

lemma demo_run_complete:
  "run_attack demo_externals demo_framework ''dave'' ''hello''
       (ClosedSet (identification_init (1 / 2)), ()) =
     (Inr \<lparr>enrollment_success = True,
           real_test_results = [IdentifiedEntry ''x.wav'' (Some ''dave'') (Num 0)],
           attack_results = [IdentifiedEntry ''attack_dave.wav'' (Some ''dave'') (Num 0)]\<rparr>,
      ClosedSet \<lparr>verifier = \<lparr>threshold = 1 / 2, enrollment_embedding = Some [3, 4, 0, 0]\<rparr>,
                 enrolled_speakers = [(''dave'', True)], task_threshold = 1 / 2\<rparr>,
      ())"
proof -
  have att: "demo_embedding ''attack_dave.wav'' = None"
    by (simp add: demo_embedding_def)
  show ?thesis
    by (simp add: run_attack_def demo_framework_def demo_externals_def demo_slices
        auth_enroll_speaker_def enroll_speaker_def demo_enroll_a identification_init_def
        local_verifier_init_def prepare_audio_def test_file_def csi_identify_def verify_def
        demo_values att generate_attack_def)
qed

theorem run_attack_precondition_failures_witness:
  "run_attack demo_externals demo_framework ''carol'' ''hello''
       (ClosedSet (identification_init (1 / 2)), ()) =
     (Inl (ValueError ''Speaker carol not found in dataset''),
      ClosedSet (identification_init (1 / 2)), ()) \<and>
   run_attack demo_externals (demo_framework\<lparr>num_enrollment_files := 3, num_test_files := 2\<rparr>)
       ''bob'' ''hello'' (ClosedSet (identification_init (1 / 2)), ()) =
     (Inl (ValueError ''Not enough files for speaker bob''),
      ClosedSet (identification_init (1 / 2)), ())"
proof -
  let ?st = "(ClosedSet (identification_init (1 / 2)), ())"
  have a: "get_files demo_framework ''carol'' = None"
    by (simp add: demo_framework_def)
  let ?f = "demo_framework\<lparr>num_enrollment_files := 3, num_test_files := 2\<rparr>"
  have b: "get_files ?f ''bob'' = Some [''a.wav'', ''b.wav''] \<and>
      int (length [''a.wav'', ''b.wav'']) < num_enrollment_files ?f + num_test_files ?f"
    by (simp add: demo_framework_def)
  from run_attack_precondition_failures
         [of demo_framework "''carol''" demo_externals "''hello''" "ClosedSet (identification_init (1 / 2))" "()"] a
  have c: "run_attack demo_externals demo_framework ''carol'' ''hello'' ?st =
     (Inl (ValueError ''Speaker carol not found in dataset''), ?st)"
    by simp
  from run_attack_precondition_failures
         [of ?f "''bob''" demo_externals "''hello''" "ClosedSet (identification_init (1 / 2))" "()"] b
  have d: "run_attack demo_externals ?f ''bob'' ''hello'' ?st =
     (Inl (ValueError ''Not enough files for speaker bob''), ?st)"
    by auto
  from c d show ?thesis by simp
qed

end
